theory Spec2Isabelle
  imports Main "HOL-Library.Word" "HOL-Library.Multiset"
begin

unbundle bit_operations_syntax

section \<open>Wire data and the calls into the environment\<close>

text \<open>
  The data-plane mediator of the qrexec agent (\<^verbatim>\<open>agent/qrexec-agent-data.c\<close>) talks to a
  vchan, to the kernel and to helpers of libqrexec.  Every answer of those collaborators
  is a field of an environment record; every call that has an effect is an entry of an
  event list, in program order.  C \<^verbatim>\<open>int\<close> values (descriptors, return values, exit
  statuses) are \<^typ>\<open>int\<close>; none of the arithmetic done on them here can overflow.  The
  three fields of the wire format are 32-bit words.
\<close>

datatype msg_type =
    MSG_HELLO
  | MSG_DATA_STDIN
  | MSG_DATA_STDOUT
  | MSG_DATA_STDERR
  | MSG_DATA_EXIT_CODE
  | MSG_OTHER "32 word"

record msg_header =
  type :: msg_type
  len :: "32 word"

record peer_info =
  version :: "32 word"

text \<open>\<^verbatim>\<open>sizeof(struct msg_header)\<close>, \<^verbatim>\<open>sizeof(struct peer_info)\<close> and \<^verbatim>\<open>sizeof(int)\<close>:
  two unsigned 32-bit fields, one unsigned 32-bit field, one 32-bit integer.\<close>

definition sizeof_msg_header :: int where
  "sizeof_msg_header = 8"

definition sizeof_peer_info :: int where
  "sizeof_peer_info = 4"

definition sizeof_int :: int where
  "sizeof_int = 4"

text \<open>\<^verbatim>\<open>#define QREXEC_DATA_MIN_VERSION QREXEC_PROTOCOL_V2\<close>.\<close>

definition QREXEC_PROTOCOL_V2 :: int where
  "QREXEC_PROTOCOL_V2 = 2"

definition QREXEC_DATA_MIN_VERSION :: int where
  "QREXEC_DATA_MIN_VERSION = QREXEC_PROTOCOL_V2"

text \<open>The buffers handed to \<^verbatim>\<open>libvchan_send\<close>.\<close>

datatype vbuf =
    Hdr msg_header
  | Info peer_info
  | Status int

datatype shut_how = SHUT_RD | SHUT_WR

datatype timeout = Zero_timeout | Normal_timeout

text \<open>
  \<^verbatim>\<open>errno\<close> after a system call, as far as this file looks at it; \<open>E_none\<close> stands for
  a call that succeeded.
\<close>

datatype errno = E_none | EINTR | EBUSY | ENOTSOCK | E_other

text \<open>Return codes of \<^verbatim>\<open>handle_remote_data\<close> and \<^verbatim>\<open>handle_input\<close>.\<close>

datatype remote_code = REMOTE_OK | REMOTE_ERROR | REMOTE_EOF | REMOTE_EXITED

text \<open>What the child forked by \<^verbatim>\<open>handle_just_exec\<close> does (\<^verbatim>\<open>case 0\<close> of its switch).\<close>

datatype child_action =
    Open_rdwr string
  | Fix_fds_to_opened
  | Do_exec string string

datatype event =
    Send vbuf int
  | Recv int
  | Set_nonblock int
  | Set_block int
  | Close int
  | Shutdown int shut_how
  | Fcntl_dupfd int int
  | Dup3 int int
  | Waitpid int
  | Pselect int "int list" "int list" timeout
  | Libvchan_wait
  | Handle_remote_data int bool
  | Handle_input int msg_type bool
  | Fork "child_action list"
  | Fork_failed
  | Server_init int int int
  | Client_init int int
  | Libvchan_close
  | Setenv_agent_pid int
  | Execute_rpc string

text \<open>
  How a call can end other than by returning: \<^verbatim>\<open>handle_vchan_error\<close> (which does not
  return), \<^verbatim>\<open>abort()\<close>, \<^verbatim>\<open>exit(1)\<close>, and \<^verbatim>\<open>do_exec\<close> replacing the process image.
\<close>

datatype error = VchanError string | Abort | Exit1 | Exec_replaced

datatype outcome = Returned int | Failed error

section \<open>Handshake\<close>

record handshake_env =
  hs_send_hdr_ret :: int
  hs_send_info_ret :: int
  hs_recv_hdr_ret :: int
  hs_recv_hdr :: msg_header
  hs_recv_info_ret :: int
  hs_recv_info :: peer_info

text \<open>
  \<^verbatim>\<open>handle_handshake\<close>.  The constant \<^verbatim>\<open>QREXEC_PROTOCOL_VERSION\<close> of \<^verbatim>\<open>qrexec.h\<close> is the
  parameter \<open>local_version\<close>.  In \<^verbatim>\<open>info.version < QREXEC_PROTOCOL_VERSION\<close> the constant
  is converted to \<^verbatim>\<open>uint32_t\<close>, the conditional expression is unsigned, and it is stored
  in the \<^verbatim>\<open>int actual_version\<close>.
\<close>

definition handle_handshake :: "int \<Rightarrow> handshake_env \<Rightarrow> int \<times> event list" where
  "handle_handshake local_version e =
    (let hdr = \<lparr>type = MSG_HELLO, len = word_of_int sizeof_peer_info\<rparr>;
         info = \<lparr>version = word_of_int local_version\<rparr>;
         ev1 = [Send (Hdr hdr) sizeof_msg_header]
     in if hs_send_hdr_ret e \<noteq> sizeof_msg_header then (- 1, ev1)
     else let ev2 = ev1 @ [Send (Info info) sizeof_peer_info]
     in if hs_send_info_ret e \<noteq> sizeof_peer_info then (- 1, ev2)
     else let ev3 = ev2 @ [Recv sizeof_msg_header]
     in if hs_recv_hdr_ret e \<noteq> sizeof_msg_header then (- 1, ev3)
     else if type (hs_recv_hdr e) \<noteq> MSG_HELLO
             \<or> len (hs_recv_hdr e) \<noteq> word_of_int sizeof_peer_info then (- 1, ev3)
     else let ev4 = ev3 @ [Recv sizeof_peer_info]
     in if hs_recv_info_ret e \<noteq> sizeof_peer_info then (- 1, ev4)
     else let peer = version (hs_recv_info e);
              actual_version =
                sint (if peer < word_of_int local_version then peer
                      else (word_of_int local_version :: 32 word))
     in if actual_version < QREXEC_DATA_MIN_VERSION then (- 1, ev4)
        else (actual_version, ev4))"

section \<open>Exit-code emitter\<close>

text \<open>
  \<^verbatim>\<open>send_exit_code\<close>, given what the two \<^verbatim>\<open>libvchan_send\<close> calls return.  The result is
  the error it ends with, if any, and the calls made.
\<close>

definition send_exit_code :: "int \<Rightarrow> int \<Rightarrow> int \<Rightarrow> error option \<times> event list" where
  "send_exit_code status hdr_ret status_ret =
    (let hdr = \<lparr>type = MSG_DATA_EXIT_CODE, len = word_of_int sizeof_int\<rparr>;
         ev1 = [Send (Hdr hdr) sizeof_msg_header]
     in if hdr_ret < 0 then (Some (VchanError ''write hdr''), ev1)
     else let ev2 = ev1 @ [Send (Status status) sizeof_int]
     in if status_ret < 0 then (Some (VchanError ''write status''), ev2)
        else (None, ev2))"

section \<open>Wait status of the child\<close>

text \<open>
  The macros of \<^verbatim>\<open><sys/wait.h>\<close> on the Linux encoding of a wait status: the low seven
  bits hold the terminating signal (0 for a normal exit, \<^verbatim>\<open>0x7f\<close> for a stopped child),
  bit 7 the core-dump flag, bits 8 to 15 the exit status.
\<close>

definition WTERMSIG :: "int \<Rightarrow> int" where
  "WTERMSIG status = status AND 0x7f"

definition WIFSIGNALED :: "int \<Rightarrow> bool" where
  "WIFSIGNALED status =
     (drop_bit 1 (sint (word_of_int ((status AND 0x7f) + 1) :: 8 word)) > 0)"

definition WEXITSTATUS :: "int \<Rightarrow> int" where
  "WEXITSTATUS status = drop_bit 8 (status AND 0xff00)"

text \<open>The translation done where the child is reaped (the loop's lines 203 to 206).\<close>

definition wait_status_to_exit_code :: "int \<Rightarrow> int" where
  "wait_status_to_exit_code status =
     (if WIFSIGNALED status then 128 + WTERMSIG status else WEXITSTATUS status)"

section \<open>The I/O loop\<close>

text \<open>
  What stays fixed during \<^verbatim>\<open>process_child_io\<close>: the file-scope variables
  \<^verbatim>\<open>child_process_pid\<close> and \<^verbatim>\<open>stdout_msg_type\<close>, and the negotiated version.
\<close>

record params =
  child_process_pid :: int
  stdout_msg_type :: msg_type
  data_protocol_version :: int

text \<open>
  The variables the loop changes.  \<open>child_exited\<close> and \<open>stdio_socket_requested\<close> are the
  two flags written by the signal handlers; \<open>stdin_buf_len\<close> is \<^verbatim>\<open>buffer_len(stdin_buf)\<close>.
\<close>

record loop_state =
  stdin_fd :: int
  stdout_fd :: int
  stderr_fd :: int
  child_process_status :: int
  remote_process_status :: int
  child_exited :: bool
  stdio_socket_requested :: int
  stdin_buf_len :: nat

text \<open>
  The answers of the environment during one iteration, in the order the iteration asks
  for them.  A field is read only if the iteration reaches the call it answers.
  \<open>sigusr1\<close>: \<^verbatim>\<open>SIGUSR1\<close> was delivered since the previous iteration looked at the flag;
  \<open>sigchld\<close>: \<^verbatim>\<open>SIGCHLD\<close> was delivered while \<^verbatim>\<open>pselect\<close> had it unblocked.
  \<open>dup3_errnos\<close>: \<^verbatim>\<open>errno\<close> after each successive \<^verbatim>\<open>dup3\<close> attempt.
  \<open>rd_ready\<close>: the descriptors \<^verbatim>\<open>pselect\<close> reports readable.
\<close>

record iter_env =
  waitpid_ret :: int
  waitpid_status :: int
  reap_shutdown :: errno
  exit_send_hdr_ret :: int
  exit_send_status_ret :: int
  data_ready_test :: int
  is_open :: int
  sigusr1 :: bool
  dup3_errnos :: "errno list"
  dupfd_ret :: int
  vchan_fd :: int
  buffer_space :: int
  data_ready_wait :: int
  pselect_ret :: int
  pselect_errno :: errno
  sigchld :: bool
  rd_ready :: "int list"
  wait_ret :: int
  remote_data_ret :: remote_code
  remote_status_new :: int
  stdin_buf_len_new :: nat
  exited_shutdown :: errno
  stdout_input_ret :: remote_code
  stderr_input_ret :: remote_code
  teardown_shutdown_stdout :: errno
  teardown_shutdown_stdin :: errno

text \<open>
  How a statement of the loop body ends: control falls through to the next statement
  (\<open>Next\<close>), \<^verbatim>\<open>continue\<close>, \<^verbatim>\<open>break\<close>, \<^verbatim>\<open>return\<close>, a call that does not return
  (\<open>Fatal\<close>), or the \<^verbatim>\<open>dup3\<close> retry loop outlasting the answers given (\<open>Stuck\<close>).
\<close>

datatype step =
    Next loop_state
  | Continue loop_state
  | Break loop_state
  | Return int loop_state
  | Fatal error loop_state
  | Stuck

type_synonym stepr = "step \<times> event list"

definition and_then :: "stepr \<Rightarrow> (loop_state \<Rightarrow> stepr) \<Rightarrow> stepr" where
  "and_then r f =
     (case r of
        (Next s, ev) \<Rightarrow> (case f s of (r', ev') \<Rightarrow> (r', ev @ ev'))
      | _ \<Rightarrow> r)"

text \<open>
  The statement \<^verbatim>\<open>if (!child_process_pid || fd == inherited || (shutdown(fd, how) == -1
  && errno == ENOTSOCK)) close(fd);\<close> with its short-circuit evaluation.
\<close>

definition close_unless_socket :: "int \<Rightarrow> int \<Rightarrow> int \<Rightarrow> shut_how \<Rightarrow> errno \<Rightarrow> event list" where
  "close_unless_socket pid fd inherited how res =
     (if pid = 0 \<or> fd = inherited then [Close fd]
      else if res = ENOTSOCK then [Shutdown fd how, Close fd]
      else [Shutdown fd how])"

text \<open>Lines 199 to 219: reap the child if \<^verbatim>\<open>SIGCHLD\<close> was seen.\<close>

definition reap :: "params \<Rightarrow> iter_env \<Rightarrow> loop_state \<Rightarrow> stepr" where
  "reap p e s =
    (if child_exited s then
       (if child_process_pid p > 0 then
          (if waitpid_ret e > 0 then
             (let s1 = s\<lparr>child_process_status := wait_status_to_exit_code (waitpid_status e)\<rparr>
              in if stdin_fd s1 \<ge> 0 then
                   (Next (s1\<lparr>stdin_fd := - 1, child_exited := False\<rparr>),
                    [Waitpid (child_process_pid p), Set_block (stdin_fd s1)]
                    @ close_unless_socket (child_process_pid p) (stdin_fd s1) 1 SHUT_WR
                        (reap_shutdown e))
                 else (Next (s1\<lparr>child_exited := False\<rparr>), [Waitpid (child_process_pid p)]))
           else (Next (s\<lparr>child_exited := False\<rparr>), [Waitpid (child_process_pid p)]))
        else (Next (s\<lparr>child_exited := False\<rparr>), []))
     else (Next s, []))"

text \<open>Lines 221 to 236: the two tests that leave the loop.\<close>

definition all_done :: "params \<Rightarrow> loop_state \<Rightarrow> bool" where
  "all_done p s =
     ((child_process_pid p = 0 \<or> child_process_status s > - 1)
      \<and> (child_process_pid p \<noteq> 0 \<or> remote_process_status s > - 1)
      \<and> stdin_fd s = - 1 \<and> stdout_fd s = - 1 \<and> stderr_fd s = - 1)"

definition vchan_done :: "iter_env \<Rightarrow> loop_state \<Rightarrow> bool" where
  "vchan_done e s = (data_ready_test e = 0 \<and> is_open e = 0 \<and> stdin_buf_len s = 0)"

definition termination_test :: "params \<Rightarrow> iter_env \<Rightarrow> loop_state \<Rightarrow> stepr" where
  "termination_test p e s =
    (if all_done p s then
       (if child_process_status s > - 1 then
          (case send_exit_code (child_process_status s) (exit_send_hdr_ret e)
                  (exit_send_status_ret e) of
             (Some err, ev) \<Rightarrow> (Fatal err s, ev)
           | (None, ev) \<Rightarrow> (Break s, ev))
        else (Break s, []))
     else if vchan_done e s then (Break s, [])
     else (Next s, []))"

text \<open>Lines 237 to 256: the child asked for one socket for both directions.\<close>

fun dup3_retry :: "errno list \<Rightarrow> errno option" where
  "dup3_retry [] = None"
| "dup3_retry (r # rs) = (if r = EINTR \<or> r = EBUSY then dup3_retry rs else Some r)"

definition dup3_attempts :: "errno list \<Rightarrow> nat" where
  "dup3_attempts rs = Suc (length (takeWhile (\<lambda>r. r = EINTR \<or> r = EBUSY) rs))"

definition deliver_sigusr1 :: "iter_env \<Rightarrow> loop_state \<Rightarrow> loop_state" where
  "deliver_sigusr1 e s =
     (if sigusr1 e \<and> stdio_socket_requested s = 0 then s\<lparr>stdio_socket_requested := 1\<rparr> else s)"

definition socket_dup :: "iter_env \<Rightarrow> loop_state \<Rightarrow> stepr" where
  "socket_dup e s0 =
    (let s = deliver_sigusr1 e s0
     in if stdio_socket_requested s = 1 then
          (if stdout_fd s \<noteq> - 1 then
             (case dup3_retry (dup3_errnos e) of
                None \<Rightarrow> (Stuck, replicate (length (dup3_errnos e)) (Dup3 (stdin_fd s) (stdout_fd s)))
              | Some r \<Rightarrow>
                  (let ev = replicate (dup3_attempts (dup3_errnos e)) (Dup3 (stdin_fd s) (stdout_fd s))
                   in if r \<noteq> E_none then (Fatal Abort s, ev)
                      else (Next (s\<lparr>stdio_socket_requested := 2\<rparr>), ev)))
           else
             (let ev = [Fcntl_dupfd (stdin_fd s) (dupfd_ret e)]
              in if dupfd_ret e < 3 then (Fatal Abort (s\<lparr>stdout_fd := dupfd_ret e\<rparr>), ev)
                 else (Next (s\<lparr>stdout_fd := dupfd_ret e, stdio_socket_requested := 2\<rparr>), ev)))
        else (Next s, []))"

text \<open>Lines 259 to 290: the readiness sets, the timeout and \<^verbatim>\<open>max_fd\<close>.\<close>

definition build_rdset :: "iter_env \<Rightarrow> loop_state \<Rightarrow> int list" where
  "build_rdset e s =
     (if buffer_space e > sizeof_msg_header then
        (if stdout_fd s \<ge> 0 then [stdout_fd s] else [])
        @ (if stderr_fd s \<ge> 0 then [stderr_fd s] else [])
      else [])
     @ [vchan_fd e]"

definition build_wrset :: "loop_state \<Rightarrow> int list" where
  "build_wrset s = (if stdin_fd s > - 1 \<and> stdin_buf_len s \<noteq> 0 then [stdin_fd s] else [])"

definition max_fd_of :: "int list \<Rightarrow> int" where
  "max_fd_of fds = fold max fds (- 1)"

definition select_timeout :: "iter_env \<Rightarrow> loop_state \<Rightarrow> timeout" where
  "select_timeout e s =
     (if stdin_buf_len s = 0 \<and> data_ready_wait e > 0 then Zero_timeout else Normal_timeout)"

text \<open>Lines 301 to 305: clear the vchan's pending event.\<close>

definition vchan_event :: "iter_env \<Rightarrow> int list \<Rightarrow> loop_state \<Rightarrow> stepr" where
  "vchan_event e rd s =
     (if vchan_fd e \<in> set rd then
        (if wait_ret e < 0 then (Fatal (VchanError ''wait'') s, [Libvchan_wait])
         else (Next s, [Libvchan_wait]))
      else (Next s, []))"

text \<open>
  Lines 307 to 337: the remote-to-local pump and the switch on its result.
  Modelled from the spec: \<^verbatim>\<open>handle_remote_data\<close> (libqrexec) gets the staging buffer and
  a pointer to \<^verbatim>\<open>remote_process_status\<close>; it leaves the buffer at the length the
  environment gives, and stores a status exactly when it returns \<open>REMOTE_EXITED\<close>.
\<close>

definition remote_stage :: "params \<Rightarrow> iter_env \<Rightarrow> loop_state \<Rightarrow> stepr" where
  "remote_stage p e s0 =
    (let ev = [Handle_remote_data (stdin_fd s0) (child_process_pid p \<noteq> 0 \<and> stdin_fd s0 \<noteq> 1)];
         s = s0\<lparr>stdin_buf_len := stdin_buf_len_new e,
                remote_process_status :=
                  (if remote_data_ret e = REMOTE_EXITED then remote_status_new e
                   else remote_process_status s0)\<rparr>
     in case remote_data_ret e of
          REMOTE_ERROR \<Rightarrow> (Fatal (VchanError ''read'') s, ev)
        | REMOTE_EOF \<Rightarrow> (Next (s\<lparr>stdin_fd := - 1\<rparr>), ev)
        | REMOTE_EXITED \<Rightarrow>
            (let ev' = ev @ close_unless_socket (child_process_pid p) (stdout_fd s) 0 SHUT_RD
                              (exited_shutdown e)
                          @ [Close (stderr_fd s)];
                 s' = s\<lparr>stdout_fd := - 1, stderr_fd := - 1\<rparr>
             in if child_process_pid p = 0 then (Return (remote_process_status s') s', ev')
                else (Next s', ev'))
        | REMOTE_OK \<Rightarrow> (Next s, ev))"

text \<open>Lines 338 to 363: the local-to-remote pump on stdout, then on stderr.\<close>

definition stdout_stage :: "params \<Rightarrow> iter_env \<Rightarrow> int list \<Rightarrow> loop_state \<Rightarrow> stepr" where
  "stdout_stage p e rd s =
    (if stdout_fd s \<ge> 0 \<and> stdout_fd s \<in> set rd then
       (let ev = [Handle_input (stdout_fd s) (stdout_msg_type p) (stdio_socket_requested s < 2)]
        in case stdout_input_ret e of
             REMOTE_ERROR \<Rightarrow> (Fatal (VchanError ''send'') s, ev)
           | REMOTE_EOF \<Rightarrow> (Next (s\<lparr>stdout_fd := - 1\<rparr>), ev)
           | _ \<Rightarrow> (Next s, ev))
     else (Next s, []))"

definition stderr_stage :: "iter_env \<Rightarrow> int list \<Rightarrow> loop_state \<Rightarrow> stepr" where
  "stderr_stage e rd s =
    (if stderr_fd s \<ge> 0 \<and> stderr_fd s \<in> set rd then
       (let ev = [Handle_input (stderr_fd s) MSG_DATA_STDERR (stdio_socket_requested s < 2)]
        in case stderr_input_ret e of
             REMOTE_ERROR \<Rightarrow> (Fatal (VchanError ''send'') s, ev)
           | REMOTE_EOF \<Rightarrow> (Next (s\<lparr>stderr_fd := - 1\<rparr>), ev)
           | _ \<Rightarrow> (Next s, ev))
     else (Next s, []))"

text \<open>Lines 301 to 363: what is done with the descriptors \<^verbatim>\<open>pselect\<close> left in \<^verbatim>\<open>rdset\<close>.\<close>

definition dispatch :: "params \<Rightarrow> iter_env \<Rightarrow> int list \<Rightarrow> loop_state \<Rightarrow> stepr" where
  "dispatch p e rd s =
     and_then (vchan_event e rd s) (\<lambda>s.
     and_then (remote_stage p e s) (\<lambda>s.
     and_then (stdout_stage p e rd s) (stderr_stage e rd)))"

text \<open>
  Lines 259 to 363.  \<^verbatim>\<open>pselect\<close> leaves in \<^verbatim>\<open>rdset\<close> the descriptors that are ready, none
  when it returns 0; while it waits, \<^verbatim>\<open>SIGCHLD\<close> is unblocked.
\<close>

definition select_stage :: "params \<Rightarrow> iter_env \<Rightarrow> loop_state \<Rightarrow> stepr" where
  "select_stage p e s =
    (let rdset = build_rdset e s;
         wrset = build_wrset s;
         ev = [Pselect (max_fd_of (rdset @ wrset) + 1) rdset wrset (select_timeout e s)];
         s1 = (if sigchld e then s\<lparr>child_exited := True\<rparr> else s)
     in if pselect_ret e < 0 then
          (if pselect_errno e = EINTR then (Continue s1, ev) else (Break s1, ev))
        else
          (let rd = (if pselect_ret e = 0 then []
                     else filter (\<lambda>fd. fd \<in> set (rd_ready e)) rdset)
           in and_then (Next s1, ev) (dispatch p e rd)))"

text \<open>One iteration of \<^verbatim>\<open>while (1)\<close>.\<close>

definition loop_body :: "params \<Rightarrow> iter_env \<Rightarrow> loop_state \<Rightarrow> stepr" where
  "loop_body p e s =
     and_then (reap p e s) (\<lambda>s.
     and_then (termination_test p e s) (\<lambda>s.
     and_then (socket_dup e s) (select_stage p e)))"

text \<open>Lines 365 to 392: what follows the loop after a \<^verbatim>\<open>break\<close>.\<close>

definition teardown :: "params \<Rightarrow> iter_env \<Rightarrow> loop_state \<Rightarrow> loop_state \<times> event list" where
  "teardown p e s =
    (let ev_out = (if stdout_fd s \<noteq> - 1 then
                     Set_block (stdout_fd s)
                     # close_unless_socket (child_process_pid p) (stdout_fd s) 0 SHUT_RD
                         (teardown_shutdown_stdout e)
                   else []);
         ev_in = (if stdin_fd s \<noteq> - 1 then
                    Set_block (stdin_fd s)
                    # close_unless_socket (child_process_pid p) (stdin_fd s) 1 SHUT_WR
                        (teardown_shutdown_stdin e)
                  else []);
         ev_err = (if stderr_fd s \<noteq> - 1 then [Set_block (stderr_fd s), Close (stderr_fd s)]
                   else [])
     in (s\<lparr>stdout_fd := - 1, stdin_fd := - 1, stderr_fd := - 1\<rparr>, ev_out @ ev_in @ ev_err))"

text \<open>
  The loop over the answers of the environment, one record an iteration.  The result is
  how the call ends, the variables at that point and the calls made; \<open>None\<close> when the loop
  is still running after the last record.
\<close>

type_synonym run = "(outcome \<times> loop_state \<times> event list) option"

definition prepend :: "event list \<Rightarrow> run \<Rightarrow> run" where
  "prepend ev r = map_option (\<lambda>(out, sf, ev'). (out, sf, ev @ ev')) r"

definition return_value :: "params \<Rightarrow> loop_state \<Rightarrow> int" where
  "return_value p s =
     (if child_process_pid p = 0 then remote_process_status s else child_process_status s)"

fun io_loop :: "params \<Rightarrow> iter_env list \<Rightarrow> loop_state \<Rightarrow> run" where
  "io_loop p [] s = None"
| "io_loop p (e # es) s =
     (case loop_body p e s of
        (Next s', ev) \<Rightarrow> prepend ev (io_loop p es s')
      | (Continue s', ev) \<Rightarrow> prepend ev (io_loop p es s')
      | (Break s', ev) \<Rightarrow>
          (case teardown p e s' of
             (sf, ev') \<Rightarrow> Some (Returned (return_value p sf), sf, ev @ ev'))
      | (Return r s', ev) \<Rightarrow> Some (Returned r, s', ev)
      | (Fatal err s', ev) \<Rightarrow> Some (Failed err, s', ev)
      | (Stuck, ev) \<Rightarrow> None)"

text \<open>
  \<^verbatim>\<open>process_child_io\<close>.  \<open>pending_sigchld\<close> and \<open>pending_sigusr1\<close> say whether the signal
  handlers ran before the call; \<open>init_dupfd_ret\<close> is what \<^verbatim>\<open>fcntl(stdin_fd,
  F_DUPFD_CLOEXEC, 3)\<close> returns on line 193.
\<close>

record loop_env =
  pending_sigchld :: bool
  pending_sigusr1 :: bool
  init_dupfd_ret :: int
  iters :: "iter_env list"

definition initial_state ::
  "params \<Rightarrow> int \<Rightarrow> int \<Rightarrow> int \<Rightarrow> nat \<Rightarrow> loop_env \<Rightarrow> loop_state" where
  "initial_state p stdin stdout stderr buf_len le =
     \<lparr>stdin_fd = stdin,
      stdout_fd = (if stdout \<noteq> stdin then stdout else init_dupfd_ret le),
      stderr_fd = stderr,
      child_process_status = (if child_process_pid p > 0 then - 1 else 0),
      remote_process_status = - 1,
      child_exited = pending_sigchld le,
      stdio_socket_requested = (if pending_sigusr1 le then 1 else 0),
      stdin_buf_len = buf_len\<rparr>"

definition initial_events :: "int \<Rightarrow> int \<Rightarrow> int \<Rightarrow> loop_env \<Rightarrow> event list" where
  "initial_events stdin stdout stderr le =
     Set_nonblock stdin
     # (if stdout \<noteq> stdin then [Set_nonblock stdout]
        else [Fcntl_dupfd stdin (init_dupfd_ret le)])
     @ (if stderr \<ge> 0 then [Set_nonblock stderr] else [])"

definition process_child_io ::
  "params \<Rightarrow> int \<Rightarrow> int \<Rightarrow> int \<Rightarrow> nat \<Rightarrow> loop_env \<Rightarrow> run" where
  "process_child_io p stdin stdout stderr buf_len le =
    (if stdout = stdin \<and> init_dupfd_ret le < 0 then
       Some (Failed Abort, initial_state p stdin stdout stderr buf_len le,
             [Set_nonblock stdin, Fcntl_dupfd stdin (init_dupfd_ret le)])
     else prepend (initial_events stdin stdout stderr le)
            (io_loop p (iters le) (initial_state p stdin stdout stderr buf_len le)))"

section \<open>Dispatcher\<close>

text \<open>
  A command line is the buffer \<^verbatim>\<open>cmdline\<close> of \<^verbatim>\<open>cmdline_len\<close> bytes (\<open>None\<close> is the null
  pointer); \<open>c_str\<close> is the string a C function sees in it.
\<close>

definition c_str :: "string \<Rightarrow> string" where
  "c_str buf = takeWhile (\<lambda>c. c \<noteq> CHR 0x00) buf"

text \<open>
  \<^verbatim>\<open>handle_just_exec\<close>, as the process that called \<^verbatim>\<open>fork\<close> sees it; where \<^verbatim>\<open>fork\<close>
  returns 0 the process is the child, which ends in \<^verbatim>\<open>do_exec\<close>.
\<close>

definition just_exec_child :: "string \<Rightarrow> string \<Rightarrow> child_action list" where
  "just_exec_child end_username cmdline =
     [Open_rdwr ''/dev/null'', Fix_fds_to_opened, Do_exec end_username cmdline]"

definition handle_just_exec :: "string \<Rightarrow> int \<Rightarrow> (error + int) \<times> event list" where
  "handle_just_exec cmdline fork_result =
    (if CHR '':'' \<notin> set (c_str cmdline) then (Inr (- 1), [])
     else let username = takeWhile (\<lambda>c. c \<noteq> CHR '':'') (c_str cmdline);
              end_username = tl (dropWhile (\<lambda>c. c \<noteq> CHR '':'') (c_str cmdline))
     in if fork_result = - 1 then (Inr (- 1), [Fork_failed])
        else if fork_result = 0 then (Inl Exec_replaced, [])
        else (Inr 0, [Fork (just_exec_child end_username username)]))"

text \<open>
  \<^verbatim>\<open>prepare_child_env\<close>: the decimal form of the pid must fit \<^verbatim>\<open>char pid_s[10]\<close> with its
  terminator, and \<^verbatim>\<open>setenv\<close> must succeed.  Installing the two signal handlers shows in
  the flags the loop starts with.
\<close>

fun dec_digits :: "nat \<Rightarrow> nat" where
  "dec_digits n = (if n < 10 then 1 else Suc (dec_digits (n div 10)))"

definition snprintf_d :: "int \<Rightarrow> int" where
  "snprintf_d i = (if i < 0 then 1 + int (dec_digits (nat (- i))) else int (dec_digits (nat i)))"

definition prepare_child_env :: "int \<Rightarrow> int \<Rightarrow> error option \<times> event list" where
  "prepare_child_env pid setenv_result =
     (let res = snprintf_d pid
      in if res < 0 then (Some Abort, [])
         else if res \<ge> 10 then (Some Abort, [])
         else if setenv_result \<noteq> 0 then (Some Abort, [Setenv_agent_pid pid])
         else (None, [Setenv_agent_pid pid]))"

text \<open>The request types \<^verbatim>\<open>handle_new_process_common\<close> switches on.\<close>

datatype req_type =
    MSG_EXEC_CMDLINE
  | MSG_JUST_EXEC
  | MSG_SERVICE_CONNECT
  | MSG_REQ_OTHER int

text \<open>Constants of \<^verbatim>\<open>qrexec.h\<close> that this file uses and does not define.\<close>

record config =
  QREXEC_PROTOCOL_VERSION :: int
  MAX_QREXEC_CMD_LEN :: nat

definition VCHAN_BUFFER_SIZE :: int where
  "VCHAN_BUFFER_SIZE = 65536"

text \<open>
  The answers of the environment during one session.  The \<open>spawn_\<close> fields are what
  \<^verbatim>\<open>execute_qubes_rpc_command\<close> returns and leaves in its out-parameters.
\<close>

record session_env =
  vchan_init_ok :: bool
  hs :: handshake_env
  getpid_ret :: int
  setenv_ret :: int
  fork_ret :: int
  je_send_hdr_ret :: int
  je_send_status_ret :: int
  spawn_ret :: int
  spawn_pid :: int
  spawn_stdin_fd :: int
  spawn_stdout_fd :: int
  spawn_stderr_fd :: int
  spawn_buf_len :: nat
  io :: loop_env

type_synonym session = "(outcome \<times> event list) option"

definition finish :: "event list \<Rightarrow> error option \<times> event list \<Rightarrow> int \<Rightarrow> session" where
  "finish ev r exit_code =
     (case r of
        (Some err, ev') \<Rightarrow> Some (Failed err, ev @ ev')
      | (None, ev') \<Rightarrow> Some (Returned exit_code, ev @ ev' @ [Libvchan_close]))"

definition finish_io :: "event list \<Rightarrow> run \<Rightarrow> session" where
  "finish_io ev r =
     (case r of
        None \<Rightarrow> None
      | Some (Failed err, sf, ev') \<Rightarrow> Some (Failed err, ev @ ev')
      | Some (Returned exit_code, sf, ev') \<Rightarrow>
          Some (Returned exit_code, ev @ ev' @ [Libvchan_close]))"

text \<open>Lines 448 to 483: from the handshake to the return.\<close>

definition serve ::
  "config \<Rightarrow> req_type \<Rightarrow> string \<Rightarrow> int \<Rightarrow> int \<Rightarrow> int \<Rightarrow> session_env \<Rightarrow> event list \<Rightarrow> session" where
  "serve cfg req cmdline stdin stdout stderr env ev0 =
    (case handle_handshake (QREXEC_PROTOCOL_VERSION cfg) (hs env) of
       (negotiated, ev_hs) \<Rightarrow>
    (case prepare_child_env (getpid_ret env) (setenv_ret env) of
       (Some err, ev_env) \<Rightarrow> Some (Failed err, ev0 @ ev_hs @ ev_env)
     | (None, ev_env) \<Rightarrow>
    (let ev = ev0 @ ev_hs @ ev_env
     in case req of
          MSG_JUST_EXEC \<Rightarrow>
            (case handle_just_exec cmdline (fork_ret env) of
               (Inl err, ev_je) \<Rightarrow> Some (Failed err, ev @ ev_je)
             | (Inr status, ev_je) \<Rightarrow>
                 finish (ev @ ev_je)
                   (send_exit_code status (je_send_hdr_ret env) (je_send_status_ret env)) 0)
        | MSG_EXEC_CMDLINE \<Rightarrow>
            finish_io (ev @ [Execute_rpc (c_str cmdline)])
              (process_child_io
                 \<lparr>child_process_pid = spawn_pid env, stdout_msg_type = MSG_DATA_STDOUT,
                  data_protocol_version = negotiated\<rparr>
                 (spawn_stdin_fd env) (spawn_stdout_fd env) (spawn_stderr_fd env)
                 (spawn_buf_len env) (io env))
        | MSG_SERVICE_CONNECT \<Rightarrow>
            finish_io ev
              (process_child_io
                 \<lparr>child_process_pid = 0, stdout_msg_type = MSG_DATA_STDIN,
                  data_protocol_version = negotiated\<rparr>
                 stdin stdout stderr 0 (io env))
        | MSG_REQ_OTHER n \<Rightarrow> Some (Returned 0, ev @ [Libvchan_close]))))"

text \<open>\<^verbatim>\<open>handle_new_process_common\<close>; lines 421 to 447 are written out here.\<close>

definition handle_new_process_common ::
  "config \<Rightarrow> req_type \<Rightarrow> int \<Rightarrow> int \<Rightarrow> string option \<Rightarrow> int \<Rightarrow> int \<Rightarrow> int \<Rightarrow> int
   \<Rightarrow> session_env \<Rightarrow> session" where
  "handle_new_process_common cfg req connect_domain connect_port cmdline stdin stdout stderr
      buffer_size0 env =
    (let buffer_size = (if buffer_size0 = 0 then VCHAN_BUFFER_SIZE else buffer_size0)
     in if req = MSG_SERVICE_CONNECT then
          (let ev = [Server_init connect_domain connect_port buffer_size]
           in if vchan_init_ok env then
                serve cfg req [] stdin stdout stderr env (ev @ [Libvchan_wait])
              else Some (Failed Exit1, ev))
        else
          (case cmdline of
             None \<Rightarrow> Some (Failed Abort, [])
           | Some buf \<Rightarrow>
               if length buf = 0 then Some (Failed Abort, [])
               else if length buf > MAX_QREXEC_CMD_LEN cfg then Some (Failed Abort, [])
               else
                 (let ev = [Client_init connect_domain connect_port]
                  in if vchan_init_ok env then
                       serve cfg req (buf[length buf - 1 := CHR 0x00]) stdin stdout stderr env ev
                     else Some (Failed Exit1, ev))))"

text \<open>\<^verbatim>\<open>handle_data_client\<close>; its \<^verbatim>\<open>assert\<close> ends the process when it fails.\<close>

definition handle_data_client ::
  "config \<Rightarrow> req_type \<Rightarrow> int \<Rightarrow> int \<Rightarrow> int \<Rightarrow> int \<Rightarrow> int \<Rightarrow> int \<Rightarrow> session_env \<Rightarrow> session" where
  "handle_data_client cfg req connect_domain connect_port stdin stdout stderr buffer_size env =
     (if req \<noteq> MSG_SERVICE_CONNECT then Some (Failed Abort, [])
      else handle_new_process_common cfg req connect_domain connect_port None
             stdin stdout stderr buffer_size env)"

section \<open>Vocabulary of the properties\<close>

fun is_send :: "event \<Rightarrow> bool" where
  "is_send (Send b n) = True"
| "is_send _ = False"

text \<open>The two \<^verbatim>\<open>libvchan_send\<close> calls that make one \<open>EXIT_CODE\<close> message.\<close>

definition exit_code_msg :: "int \<Rightarrow> event list" where
  "exit_code_msg status =
     [Send (Hdr \<lparr>type = MSG_DATA_EXIT_CODE, len = 4\<rparr>) 8, Send (Status status) 4]"

text \<open>
  The variables after the reaping step of an iteration, and the ways a step leaves the
  loop.  \<open>other_exit\<close> lists the exits that lie past the termination test.
\<close>

definition after_reap :: "params \<Rightarrow> iter_env \<Rightarrow> loop_state \<Rightarrow> loop_state" where
  "after_reap p e s = (case fst (reap p e s) of Next s' \<Rightarrow> s' | _ \<Rightarrow> s)"

fun leaves_loop :: "step \<Rightarrow> bool" where
  "leaves_loop (Break s) = True"
| "leaves_loop (Return r s) = True"
| "leaves_loop (Fatal err s) = True"
| "leaves_loop _ = False"

definition other_exit :: "params \<Rightarrow> iter_env \<Rightarrow> step \<Rightarrow> bool" where
  "other_exit p e x =
     ((\<exists>s'. x = Break s' \<and> pselect_ret e < 0 \<and> pselect_errno e \<noteq> EINTR)
      \<or> (\<exists>s'. x = Return (remote_status_new e) s' \<and> child_process_pid p = 0
                \<and> remote_data_ret e = REMOTE_EXITED)
      \<or> (\<exists>err s'. x = Fatal err s'))"

fun step_state :: "step \<Rightarrow> loop_state option" where
  "step_state (Next s) = Some s"
| "step_state (Continue s) = Some s"
| "step_state (Break s) = Some s"
| "step_state (Return r s) = Some s"
| "step_state (Fatal err s) = Some s"
| "step_state Stuck = None"

text \<open>
  \<open>gated e x\<close>: the call \<open>x\<close> respects the gate on ring space of an iteration answered by
  \<open>e\<close>.  A \<^verbatim>\<open>pselect\<close> watches for reading, besides the vchan's descriptor, only
  descriptors admitted while more than a header of ring space was free; \<^verbatim>\<open>handle_input\<close>
  is called only on such a descriptor.
\<close>

fun gated :: "iter_env \<Rightarrow> event \<Rightarrow> bool" where
  "gated e (Handle_input fd t b) = (sizeof_msg_header < buffer_space e \<or> fd = vchan_fd e)"
| "gated e (Pselect n rd wr t) =
     list_all (\<lambda>fd. sizeof_msg_header < buffer_space e \<or> fd = vchan_fd e) rd"
| "gated e _ = True"

text \<open>
  \<open>exit_code_last sf ev\<close>: among the calls \<open>ev\<close> either none is a send, or they end with
  the one \<open>EXIT_CODE\<close> message carrying the recorded local status, with no send before it.
\<close>

definition exit_code_last :: "loop_state \<Rightarrow> event list \<Rightarrow> bool" where
  "exit_code_last sf ev =
     (filter is_send ev = []
      \<or> (child_process_status sf > - 1
          \<and> (\<exists>ev0. ev = ev0 @ exit_code_msg (child_process_status sf) \<and> filter is_send ev0 = [])))"


definition owned :: "loop_state \<Rightarrow> int list" where
  "owned s = filter (\<lambda>fd. 0 \<le> fd) [stdin_fd s, stdout_fd s, stderr_fd s]"


definition plus_fd :: "int \<Rightarrow> int multiset \<Rightarrow> int multiset" where
  "plus_fd fd A = (if 0 \<le> fd then add_mset fd A else A)"


definition frames :: "(loop_state \<Rightarrow> bool) \<Rightarrow> stepr \<Rightarrow> bool" where
  "frames Q r = (\<forall>s'. step_state (fst r) = Some s' \<longrightarrow> Q s')"


section \<open>Concrete sessions\<close>

text \<open>A peer whose HELLO arrives whole and announces version \<open>v\<close>.\<close>

definition hello_from :: "32 word \<Rightarrow> handshake_env" where
  "hello_from v =
     \<lparr>hs_send_hdr_ret = 8, hs_send_info_ret = 4, hs_recv_hdr_ret = 8,
      hs_recv_hdr = \<lparr>type = MSG_HELLO, len = 4\<rparr>, hs_recv_info_ret = 4,
      hs_recv_info = \<lparr>version = v\<rparr>\<rparr>"

text \<open>A peer whose first message is a stdin frame.\<close>

definition stdin_first :: handshake_env where
  "stdin_first = (hello_from 3)\<lparr>hs_recv_hdr := \<lparr>type = MSG_DATA_STDIN, len = 4\<rparr>\<rparr>"

definition no_iterations :: loop_env where
  "no_iterations =
     \<lparr>pending_sigchld = False, pending_sigusr1 = False, init_dupfd_ret = 0, iters = []\<rparr>"

text \<open>A session in which every call succeeds and the peer announces version \<open>v\<close>.\<close>

definition session_with_peer :: "32 word \<Rightarrow> session_env" where
  "session_with_peer v =
     \<lparr>vchan_init_ok = True, hs = hello_from v, getpid_ret = 4242, setenv_ret = 0,
      fork_ret = 4243, je_send_hdr_ret = 8, je_send_status_ret = 4, spawn_ret = 0,
      spawn_pid = 0, spawn_stdin_fd = 0, spawn_stdout_fd = 0, spawn_stderr_fd = 0,
      spawn_buf_len = 0, io = no_iterations\<rparr>"

definition protocol_v3 :: config where
  "protocol_v3 = \<lparr>QREXEC_PROTOCOL_VERSION = 3, MAX_QREXEC_CMD_LEN = 65535\<rparr>"

text \<open>
  An iteration in which nothing happens: no signal, the vchan open and without data,
  \<^verbatim>\<open>pselect\<close> timing out; descriptors 5, 6, 7 or 10, 11 are pipes (\<^verbatim>\<open>shutdown\<close> fails with
  \<^verbatim>\<open>ENOTSOCK\<close>), descriptor 4 is the vchan's.  The other iterations change a few answers.
\<close>

definition idle_iter :: iter_env where
  "idle_iter =
     \<lparr>waitpid_ret = 0, waitpid_status = 0, reap_shutdown = ENOTSOCK,
      exit_send_hdr_ret = 8, exit_send_status_ret = 4,
      data_ready_test = 0, is_open = 1, sigusr1 = False, dup3_errnos = [], dupfd_ret = - 1,
      vchan_fd = 4, buffer_space = 65536, data_ready_wait = 0,
      pselect_ret = 0, pselect_errno = E_none, sigchld = False, rd_ready = [],
      wait_ret = 0, remote_data_ret = REMOTE_OK, remote_status_new = 0, stdin_buf_len_new = 0,
      exited_shutdown = ENOTSOCK, stdout_input_ret = REMOTE_OK, stderr_input_ret = REMOTE_OK,
      teardown_shutdown_stdout = ENOTSOCK, teardown_shutdown_stdin = ENOTSOCK\<rparr>"

definition exec_params :: params where
  "exec_params =
     \<lparr>child_process_pid = 4243, stdout_msg_type = MSG_DATA_STDOUT, data_protocol_version = 3\<rparr>"

definition service_params :: params where
  "service_params =
     \<lparr>child_process_pid = 0, stdout_msg_type = MSG_DATA_STDIN, data_protocol_version = 3\<rparr>"

text \<open>
  Service-connect: the first thing the peer sends is \<open>EXIT_CODE(7)\<close>.
\<close>

definition exit7_iter :: iter_env where
  "exit7_iter =
     idle_iter\<lparr>data_ready_test := 12, data_ready_wait := 12, pselect_ret := 1, rd_ready := [4],
               remote_data_ret := REMOTE_EXITED, remote_status_new := 7\<rparr>"

definition remote_exit7 :: loop_env where
  "remote_exit7 =
     \<lparr>pending_sigchld = False, pending_sigusr1 = False, init_dupfd_ret = 0,
      iters = [exit7_iter]\<rparr>"

text \<open>
  Exec: \<^verbatim>\<open>SIGCHLD\<close> is pending, the child is reaped with status 0, the vchan is found
  disconnected while the child's stdout is still open.
\<close>

definition vchan_gone_iter :: iter_env where
  "vchan_gone_iter = idle_iter\<lparr>waitpid_ret := 4243, is_open := 0\<rparr>"

definition child_done_vchan_gone :: loop_env where
  "child_done_vchan_gone =
     \<lparr>pending_sigchld = True, pending_sigusr1 = False, init_dupfd_ret = 0,
      iters = [vchan_gone_iter]\<rparr>"

text \<open>
  Exec: in the first iteration the peer closes stdin and the child's stdout and stderr
  reach end of file; in the second the child is reaped, killed by signal 15, while the
  outbound ring is full.  \<open>drained\<close> is the state between the two.
\<close>

definition eof_iter :: iter_env where
  "eof_iter =
     idle_iter\<lparr>data_ready_test := 8, data_ready_wait := 8, pselect_ret := 3,
               rd_ready := [6, 7, 4], remote_data_ret := REMOTE_EOF,
               stdout_input_ret := REMOTE_EOF, stderr_input_ret := REMOTE_EOF, sigchld := True\<rparr>"

definition full_ring_reap_iter :: iter_env where
  "full_ring_reap_iter = idle_iter\<lparr>waitpid_ret := 4243, waitpid_status := 15, buffer_space := 0\<rparr>"

definition sigterm_session :: loop_env where
  "sigterm_session =
     \<lparr>pending_sigchld = False, pending_sigusr1 = False, init_dupfd_ret = 0,
      iters = [eof_iter, full_ring_reap_iter]\<rparr>"

definition drained :: loop_state where
  "drained =
     \<lparr>stdin_fd = - 1, stdout_fd = - 1, stderr_fd = - 1, child_process_status = - 1,
      remote_process_status = - 1, child_exited = True, stdio_socket_requested = 0,
      stdin_buf_len = 0\<rparr>"

text \<open>
  The vchan found disconnected at once; and the first iteration above with eight bytes
  of ring space.
\<close>

definition vchan_closed_iter :: iter_env where
  "vchan_closed_iter = idle_iter\<lparr>is_open := 0\<rparr>"

definition small_ring_iter :: iter_env where
  "small_ring_iter = eof_iter\<lparr>buffer_space := 8\<rparr>"

section \<open>The handshake\<close>

lemma sint_small:
  assumes "uint (w :: 32 word) < 2 ^ 31"
  shows "sint w = uint w"
proof -
  have "- (2 ^ 31) \<le> uint w"
    by (rule order_trans [of _ 0]) simp_all
  with assms show ?thesis
    by (simp add: sint_uint signed_take_bit_int_eq_self_iff)
qed

lemma negotiated_min:
  assumes "0 \<le> l" and "l < 2 ^ 31"
  shows "sint (if peer < word_of_int l then peer else (word_of_int l :: 32 word))
         = min l (uint peer)"
proof -
  have ul: "uint (word_of_int l :: 32 word) = l"
    using assms by (simp add: uint_word_of_int take_bit_int_eq_self)
  show ?thesis
  proof (cases "peer < word_of_int l")
    case True
    then have lt: "uint peer < l" using ul by (simp add: word_less_def)
    then have "uint peer < 2 ^ 31" using assms by linarith
    then have "sint peer = uint peer" by (rule sint_small)
    with True lt show ?thesis by simp
  next
    case False
    then have ge: "l \<le> uint peer" using ul by (simp add: word_less_def not_less)
    have "sint (word_of_int l :: 32 word) = l"
      using assms sint_small [of "word_of_int l"] ul by simp
    with False ge show ?thesis by simp
  qed
qed

text \<open>
  C2.  Let the local protocol version be a non-negative \<^verbatim>\<open>int\<close>.  When both HELLO sends and
  both receives transfer whole messages, the peer's header has type HELLO and length 4,
  and the smaller of the two versions is at least the minimum data version, the
  handshake returns that smaller version.  It returns the error value \<open>-1\<close> whenever the
  received header's type is not HELLO or its length is not the size of peer-info, and
  whenever the smaller of the two versions is below the minimum data version.
\<close>

theorem handle_handshake_negotiates:
  assumes "0 \<le> local_version" and "local_version < 2 ^ 31"
  shows "(hs_send_hdr_ret e = sizeof_msg_header \<and> hs_send_info_ret e = sizeof_peer_info
          \<and> hs_recv_hdr_ret e = sizeof_msg_header \<and> type (hs_recv_hdr e) = MSG_HELLO
          \<and> len (hs_recv_hdr e) = 4 \<and> hs_recv_info_ret e = sizeof_peer_info
          \<and> QREXEC_DATA_MIN_VERSION \<le> min local_version (uint (version (hs_recv_info e)))
          \<longrightarrow> fst (handle_handshake local_version e)
                = min local_version (uint (version (hs_recv_info e))))
       \<and> (type (hs_recv_hdr e) \<noteq> MSG_HELLO \<or> len (hs_recv_hdr e) \<noteq> 4
          \<longrightarrow> fst (handle_handshake local_version e) = - 1)
       \<and> (min local_version (uint (version (hs_recv_info e))) < QREXEC_DATA_MIN_VERSION
          \<longrightarrow> fst (handle_handshake local_version e) = - 1)"
proof -
  let ?n = "min local_version (uint (version (hs_recv_info e)))"
  have n: "sint (if version (hs_recv_info e) < word_of_int local_version
                 then version (hs_recv_info e)
                 else (word_of_int local_version :: 32 word)) = ?n"
    by (rule negotiated_min [OF assms])
  have a: "hs_send_hdr_ret e = sizeof_msg_header \<and> hs_send_info_ret e = sizeof_peer_info
          \<and> hs_recv_hdr_ret e = sizeof_msg_header \<and> type (hs_recv_hdr e) = MSG_HELLO
          \<and> len (hs_recv_hdr e) = 4 \<and> hs_recv_info_ret e = sizeof_peer_info
          \<and> QREXEC_DATA_MIN_VERSION \<le> ?n
          \<longrightarrow> fst (handle_handshake local_version e) = ?n"
    unfolding handle_handshake_def Let_def n by (auto simp add: sizeof_peer_info_def)
  have b: "type (hs_recv_hdr e) \<noteq> MSG_HELLO \<or> len (hs_recv_hdr e) \<noteq> 4
          \<longrightarrow> fst (handle_handshake local_version e) = - 1"
    unfolding handle_handshake_def Let_def n by (simp add: sizeof_peer_info_def)
  have c: "?n < QREXEC_DATA_MIN_VERSION \<longrightarrow> fst (handle_handshake local_version e) = - 1"
    unfolding handle_handshake_def Let_def n by simp
  from a b c show ?thesis by blast
qed

theorem handle_handshake_negotiates_witness:
  "fst (handle_handshake 3 (hello_from 2)) = 2
   \<and> fst (handle_handshake 3 (hello_from 7)) = 3
   \<and> fst (handle_handshake 3 stdin_first) = - 1
   \<and> fst (handle_handshake 3 (hello_from 1)) = - 1"
  using handle_handshake_negotiates [of 3 "hello_from 2"]
        handle_handshake_negotiates [of 3 "hello_from 7"]
        handle_handshake_negotiates [of 3 stdin_first]
        handle_handshake_negotiates [of 3 "hello_from 1"]
  by (simp add: hello_from_def stdin_first_def sizeof_msg_header_def sizeof_peer_info_def
      QREXEC_DATA_MIN_VERSION_def QREXEC_PROTOCOL_V2_def)

lemma handshake_with_old_peer:
  "handle_handshake 3 (hello_from 1) =
     (- 1, [Send (Hdr \<lparr>type = MSG_HELLO, len = 4\<rparr>) 8, Send (Info \<lparr>version = 3\<rparr>) 4,
            Recv 8, Recv 4])"
  by (simp add: handle_handshake_def hello_from_def Let_def sizeof_msg_header_def
      sizeof_peer_info_def QREXEC_DATA_MIN_VERSION_def QREXEC_PROTOCOL_V2_def)

lemma snprintf_d_4242: "snprintf_d 4242 = 4"
  by (simp add: snprintf_d_def)

text \<open>
  C1.  The claim is that a handshake ending in an incompatible version aborts the session:
  no child, no data frame, a nonzero return value.  The session below is the request
  \<^verbatim>\<open>MSG_JUST_EXEC\<close> for \<^verbatim>\<open>user:true\<close> with a peer announcing version 1.  The handshake
  returns \<open>-1\<close>, and \<^verbatim>\<open>handle_new_process_common\<close>, which never looks at that value, goes
  on: it forks the command, sends an \<open>EXIT_CODE\<close> message and returns 0.
\<close>

theorem incompatible_version_session_goes_on:
  "handle_new_process_common protocol_v3 MSG_JUST_EXEC 0 512
     (Some (''user:true'' @ [CHR 0x00])) (- 1) (- 1) (- 1) 0 (session_with_peer 1) =
   Some (Returned 0,
     [Client_init 0 512,
      Send (Hdr \<lparr>type = MSG_HELLO, len = 4\<rparr>) 8, Send (Info \<lparr>version = 3\<rparr>) 4,
      Recv 8, Recv 4,
      Setenv_agent_pid 4242,
      Fork [Open_rdwr ''/dev/null'', Fix_fds_to_opened, Do_exec ''true'' ''user''],
      Send (Hdr \<lparr>type = MSG_DATA_EXIT_CODE, len = 4\<rparr>) 8, Send (Status 0) 4,
      Libvchan_close])"
  by (simp add: handle_new_process_common_def serve_def protocol_v3_def session_with_peer_def
      handshake_with_old_peer snprintf_d_4242 prepare_child_env_def handle_just_exec_def
      c_str_def just_exec_child_def finish_def send_exit_code_def Let_def
      sizeof_msg_header_def sizeof_int_def)

section \<open>The exit-code emitter\<close>

text \<open>
  C7.  The claim is that a short write on either send of the exit-code emitter is fatal.
  Below, the header send transfers none of its 8 bytes (\<^verbatim>\<open>libvchan_send\<close> returns 0):
  \<^verbatim>\<open>send_exit_code\<close>, which tests only for a negative return value, goes on to send the
  status and returns normally.
\<close>

theorem send_exit_code_accepts_short_write:
  "send_exit_code 7 0 4 =
     (None, [Send (Hdr \<lparr>type = MSG_DATA_EXIT_CODE, len = 4\<rparr>) 8, Send (Status 7) 4])"
  by (simp add: send_exit_code_def Let_def sizeof_msg_header_def sizeof_int_def)

section \<open>Composition of steps\<close>

lemma and_thenE:
  assumes "and_then r f = (x, ev)"
  obtains (through) s ev1 ev2 where "r = (Next s, ev1)" "f s = (x, ev2)" "ev = ev1 @ ev2"
        | (stop) "r = (x, ev)" "\<And>s. x \<noteq> Next s"
  using assms unfolding and_then_def
  by (cases r; cases "fst r") (auto split: prod.splits)

lemma and_then_events:
  assumes "\<forall>x \<in> set (snd r). P x" and "\<And>s. \<forall>x \<in> set (snd (f s)). P x"
  shows "\<forall>x \<in> set (snd (and_then r f)). P x"
proof (cases "and_then r f")
  case (Pair x ev)
  then show ?thesis
  proof (cases rule: and_thenE)
    case (through s ev1 ev2)
    with assms(1) assms(2) [of s] Pair show ?thesis by auto
  next
    case stop
    with assms(1) Pair show ?thesis by simp
  qed
qed

lemma and_then_Next [simp]: "and_then (Next s, ev) f = (fst (f s), ev @ snd (f s))"
  by (simp add: and_then_def split: prod.splits)

lemma and_then_stop [simp]:
  "and_then (Continue s, ev) f = (Continue s, ev)"
  "and_then (Break s, ev) f = (Break s, ev)"
  "and_then (Return r s, ev) f = (Return r s, ev)"
  "and_then (Fatal err s, ev) f = (Fatal err s, ev)"
  "and_then (Stuck, ev) f = (Stuck, ev)"
  by (simp_all add: and_then_def)

lemma and_then_fst:
  assumes "P (fst r)" and "\<And>s. P (fst (f s))"
  shows "P (fst (and_then r f))"
proof (cases r)
  case (Pair x ev)
  with assms show ?thesis by (cases x) simp_all
qed

lemma frames_and_then:
  assumes "frames Q r" and "\<And>s. Q s \<Longrightarrow> frames Q (f s)"
  shows "frames Q (and_then r f)"
proof (cases r)
  case (Pair x ev)
  with assms show ?thesis by (cases x) (auto simp add: frames_def)
qed

lemma reap_eq: "reap p e s = (Next (after_reap p e s), snd (reap p e s))"
  by (simp add: after_reap_def reap_def Let_def)

lemma after_reap_fields:
  "stdout_fd (after_reap p e s) = stdout_fd s"
  "stderr_fd (after_reap p e s) = stderr_fd s"
  "remote_process_status (after_reap p e s) = remote_process_status s"
  "stdin_buf_len (after_reap p e s) = stdin_buf_len s"
  "stdio_socket_requested (after_reap p e s) = stdio_socket_requested s"
  by (simp_all add: after_reap_def reap_def Let_def)

lemma after_reap_status:
  "child_process_status (after_reap p e s) =
     (if child_exited s \<and> child_process_pid p > 0 \<and> waitpid_ret e > 0
      then wait_status_to_exit_code (waitpid_status e) else child_process_status s)"
  by (simp add: after_reap_def reap_def Let_def)

lemma loop_body_eq:
  "loop_body p e s =
     (let s1 = after_reap p e s;
          r = and_then (termination_test p e s1) (\<lambda>s. and_then (socket_dup e s) (select_stage p e))
      in (fst r, snd (reap p e s) @ snd r))"
  unfolding loop_body_def by (subst reap_eq) (simp add: Let_def)

lemma termination_test_leaves:
  "leaves_loop (fst (termination_test p e s)) \<longleftrightarrow> all_done p s \<or> vchan_done e s"
  by (simp add: termination_test_def send_exit_code_def Let_def)

lemma termination_test_Next:
  "\<not> all_done p s \<Longrightarrow> \<not> vchan_done e s \<Longrightarrow> termination_test p e s = (Next s, [])"
  by (simp add: termination_test_def)

lemma termination_test_vchan_done:
  "\<not> all_done p s \<Longrightarrow> vchan_done e s \<Longrightarrow> termination_test p e s = (Break s, [])"
  by (simp add: termination_test_def)

lemma teardown_fds:
  "stdin_fd (fst (teardown p e s)) = - 1"
  "stdout_fd (fst (teardown p e s)) = - 1"
  "stderr_fd (fst (teardown p e s)) = - 1"
  "child_process_status (fst (teardown p e s)) = child_process_status s"
  "remote_process_status (fst (teardown p e s)) = remote_process_status s"
  by (simp_all add: teardown_def Let_def)

lemma io_loop_Break:
  "fst (loop_body p e s) = Break s' \<Longrightarrow>
     io_loop p (e # es) s =
       Some (Returned (return_value p (fst (teardown p e s'))), fst (teardown p e s'),
             snd (loop_body p e s) @ snd (teardown p e s'))"
  by (cases "loop_body p e s") (simp split: prod.splits)

lemma process_child_io_run:
  assumes "process_child_io p fin fout ferr n le = Some (out, sf, ev)"
    and "\<not> (fout = fin \<and> init_dupfd_ret le < 0)"
  shows "\<exists>ev'. io_loop p (iters le) (initial_state p fin fout ferr n le) = Some (out, sf, ev')
               \<and> ev = initial_events fin fout ferr le @ ev'"
  using assms by (auto simp add: process_child_io_def prepend_def)

section \<open>The concrete sessions, evaluated\<close>

lemmas stage_defs =
  loop_body_def and_then_def reap_def termination_test_def socket_dup_def deliver_sigusr1_def
  select_stage_def dispatch_def vchan_event_def remote_stage_def stdout_stage_def stderr_stage_def
  teardown_def close_unless_socket_def all_done_def vchan_done_def build_rdset_def build_wrset_def
  max_fd_of_def select_timeout_def send_exit_code_def return_value_def prepend_def
  sizeof_msg_header_def sizeof_int_def Let_def

lemmas session_defs =
  process_child_io_def initial_state_def initial_events_def idle_iter_def exec_params_def
  service_params_def exit7_iter_def remote_exit7_def vchan_gone_iter_def
  child_done_vchan_gone_def eof_iter_def full_ring_reap_iter_def sigterm_session_def
  drained_def vchan_closed_iter_def small_ring_iter_def no_iterations_def

lemmas wait_defs = wait_status_to_exit_code_def WIFSIGNALED_def WTERMSIG_def WEXITSTATUS_def


lemma child_done_vchan_gone_run:
  "process_child_io exec_params 5 6 7 0 child_done_vchan_gone =
     Some (Returned 0,
           \<lparr>stdin_fd = - 1, stdout_fd = - 1, stderr_fd = - 1, child_process_status = 0,
            remote_process_status = - 1, child_exited = False, stdio_socket_requested = 0,
            stdin_buf_len = 0\<rparr>,
           [Set_nonblock 5, Set_nonblock 6, Set_nonblock 7,
            Waitpid 4243, Set_block 5, Shutdown 5 SHUT_WR, Close 5,
            Set_block 6, Shutdown 6 SHUT_RD, Close 6, Set_block 7, Close 7])"
  by (simp add: process_child_io_def initial_state_def initial_events_def child_done_vchan_gone_def
      vchan_gone_iter_def idle_iter_def exec_params_def stage_defs
      wait_status_to_exit_code_def WIFSIGNALED_def WTERMSIG_def WEXITSTATUS_def)

lemma sigterm_session_run:
  "process_child_io exec_params 5 6 7 0 sigterm_session =
     Some (Returned 143,
           \<lparr>stdin_fd = - 1, stdout_fd = - 1, stderr_fd = - 1, child_process_status = 143,
            remote_process_status = - 1, child_exited = False, stdio_socket_requested = 0,
            stdin_buf_len = 0\<rparr>,
           [Set_nonblock 5, Set_nonblock 6, Set_nonblock 7,
            Pselect 8 [6, 7, 4] [] Zero_timeout, Libvchan_wait,
            Handle_remote_data 5 True,
            Handle_input 6 MSG_DATA_STDOUT True, Handle_input 7 MSG_DATA_STDERR True,
            Waitpid 4243,
            Send (Hdr \<lparr>type = MSG_DATA_EXIT_CODE, len = 4\<rparr>) 8, Send (Status 143) 4])"
  by (simp add: process_child_io_def initial_state_def initial_events_def sigterm_session_def
      eof_iter_def full_ring_reap_iter_def idle_iter_def exec_params_def stage_defs
      wait_status_to_exit_code_def WIFSIGNALED_def WTERMSIG_def WEXITSTATUS_def)


lemma vchan_gone_body:
  "loop_body exec_params vchan_gone_iter (initial_state exec_params 5 6 7 0 child_done_vchan_gone)
   = (Break \<lparr>stdin_fd = - 1, stdout_fd = 6, stderr_fd = 7, child_process_status = 0,
            remote_process_status = - 1, child_exited = False, stdio_socket_requested = 0,
            stdin_buf_len = 0\<rparr>,
      [Waitpid 4243, Set_block 5, Shutdown 5 SHUT_WR, Close 5])"
  by (simp add: session_defs stage_defs wait_defs)

lemma exit7_body:
  "loop_body service_params exit7_iter (initial_state service_params 10 11 (- 1) 0 remote_exit7)
   = (Return 7 \<lparr>stdin_fd = 10, stdout_fd = - 1, stderr_fd = - 1, child_process_status = 0,
            remote_process_status = 7, child_exited = False, stdio_socket_requested = 0,
            stdin_buf_len = 0\<rparr>,
      [Pselect 12 [11, 4] [] Zero_timeout, Libvchan_wait,
       Handle_remote_data 10 False, Close 11, Close (- 1)])"
  by (simp add: session_defs stage_defs)

lemma vchan_gone_after_reap:
  "vchan_done vchan_gone_iter
     (after_reap exec_params vchan_gone_iter (initial_state exec_params 5 6 7 0 child_done_vchan_gone))"
  "\<not> all_done service_params
          (after_reap service_params exit7_iter
             (initial_state service_params 10 11 (- 1) 0 remote_exit7))"
  "\<not> vchan_done exit7_iter
          (after_reap service_params exit7_iter
             (initial_state service_params 10 11 (- 1) 0 remote_exit7))"
  by (simp_all add: after_reap_def session_defs stage_defs wait_defs)

lemma eof_body:
  "loop_body exec_params eof_iter (initial_state exec_params 5 6 7 0 sigterm_session)
   = (Next drained,
      [Pselect 8 [6, 7, 4] [] Zero_timeout, Libvchan_wait, Handle_remote_data 5 True,
       Handle_input 6 MSG_DATA_STDOUT True, Handle_input 7 MSG_DATA_STDERR True])"
  by (simp add: session_defs stage_defs)

lemma full_ring_body:
  "loop_body exec_params full_ring_reap_iter drained
   = (Break (drained\<lparr>child_process_status := 143, child_exited := False\<rparr>),
      [Waitpid 4243, Send (Hdr \<lparr>type = MSG_DATA_EXIT_CODE, len = 4\<rparr>) 8, Send (Status 143) 4])"
  by (simp add: session_defs stage_defs wait_defs)

lemma small_ring_body:
  "snd (loop_body exec_params small_ring_iter (initial_state exec_params 5 6 7 0 sigterm_session))
   = [Pselect 5 [4] [] Zero_timeout, Libvchan_wait, Handle_remote_data 5 True]"
  by (simp add: session_defs stage_defs)

lemma sigterm_facts:
  "child_exited drained" "0 < child_process_pid exec_params"
  "0 < waitpid_ret full_ring_reap_iter" "waitpid_status full_ring_reap_iter = 15"
  "iters sigterm_session = [eof_iter, full_ring_reap_iter]"
  "waitpid_ret eof_iter = 0"
  by (simp_all add: session_defs)

lemma sigterm_macros: "WIFSIGNALED 15" "WTERMSIG 15 = 15"
  by (simp_all add: wait_defs)

lemma early_close_facts:
  "vchan_done vchan_closed_iter (initial_state exec_params 5 6 7 0 no_iterations)"
  "vchan_done vchan_closed_iter (initial_state service_params 10 11 (- 1) 0 no_iterations)"
  "child_process_pid exec_params > 0"
  "child_process_status (initial_state exec_params 5 6 7 0 no_iterations) = - 1"
  "\<not> child_exited (initial_state exec_params 5 6 7 0 no_iterations)"
  "child_process_pid service_params = 0"
  "remote_process_status (initial_state service_params 10 11 (- 1) 0 no_iterations) = - 1"
  by (simp_all add: session_defs vchan_done_def)

lemma compatible_handshake:
  "handle_handshake 3 (hello_from 3) =
     (3, [Send (Hdr \<lparr>type = MSG_HELLO, len = 4\<rparr>) 8, Send (Info \<lparr>version = 3\<rparr>) 4,
          Recv 8, Recv 4])"
  by (simp add: handle_handshake_def hello_from_def Let_def sizeof_msg_header_def
      sizeof_peer_info_def QREXEC_DATA_MIN_VERSION_def QREXEC_PROTOCOL_V2_def)

lemma session_facts:
  "vchan_init_ok (session_with_peer 3)"
  "MAX_QREXEC_CMD_LEN protocol_v3 = 65535"
  "QREXEC_PROTOCOL_VERSION protocol_v3 = 3"
  "hs (session_with_peer 3) = hello_from 3"
  "getpid_ret (session_with_peer 3) = 4242"
  "setenv_ret (session_with_peer 3) = 0"
  "je_send_hdr_ret (session_with_peer 3) = 8"
  "je_send_status_ret (session_with_peer 3) = 4"
  "fork_ret (session_with_peer 3) = 4243"
  by (simp_all add: session_with_peer_def protocol_v3_def)

section \<open>A vchan closed before any exit code\<close>

text \<open>
  C10.  Take any state of the loop and an iteration that finds the vchan without pending
  data, not open, and the staging buffer empty.  If there is a local child whose status is
  still the sentinel and that this iteration does not reap, or if the mode is
  service-connect and no remote status has been stored, then \<^verbatim>\<open>process_child_io\<close>'s loop
  ends in this iteration and the call returns \<open>-1\<close>.
\<close>

theorem vchan_closed_before_exit_code:
  assumes "vchan_done e s"
    and "(child_process_pid p > 0 \<and> child_process_status s = - 1
            \<and> \<not> (child_exited s \<and> waitpid_ret e > 0))
         \<or> (child_process_pid p = 0 \<and> remote_process_status s = - 1)"
  shows "\<exists>sf ev. io_loop p (e # es) s = Some (Returned (- 1), sf, ev)"
proof -
  let ?s1 = "after_reap p e s"
  have nd: "\<not> all_done p ?s1"
    using assms(2) by (auto simp: all_done_def after_reap_status after_reap_fields)
  have vd: "vchan_done e ?s1"
    using assms(1) by (simp add: vchan_done_def after_reap_fields)
  have body: "fst (loop_body p e s) = Break ?s1"
    by (simp add: loop_body_eq Let_def termination_test_vchan_done [OF nd vd])
  have "return_value p (fst (teardown p e ?s1)) = - 1"
    using assms(2) by (auto simp: return_value_def teardown_fds after_reap_status after_reap_fields)
  with io_loop_Break [OF body] show ?thesis by simp
qed

theorem vchan_closed_before_exit_code_witness:
  "(\<exists>sf ev. io_loop exec_params [vchan_closed_iter]
               (initial_state exec_params 5 6 7 0 no_iterations)
             = Some (Returned (- 1), sf, ev))
   \<and> (\<exists>sf ev. io_loop service_params [vchan_closed_iter]
               (initial_state service_params 10 11 (- 1) 0 no_iterations)
             = Some (Returned (- 1), sf, ev))"
  using vchan_closed_before_exit_code [of vchan_closed_iter
          "initial_state exec_params 5 6 7 0 no_iterations" exec_params "[]"]
        vchan_closed_before_exit_code [of vchan_closed_iter
          "initial_state service_params 10 11 (- 1) 0 no_iterations" service_params "[]"]
        early_close_facts
  by blast

section \<open>When the loop is left\<close>

lemma socket_dup_exit: "leaves_loop (fst (socket_dup e s)) \<longrightarrow> other_exit p e (fst (socket_dup e s))"
  by (simp add: socket_dup_def Let_def other_exit_def split: option.splits)

lemma vchan_event_exit:
  "leaves_loop (fst (vchan_event e rd s)) \<longrightarrow> other_exit p e (fst (vchan_event e rd s))"
  by (simp add: vchan_event_def other_exit_def)

lemma remote_stage_exit:
  "leaves_loop (fst (remote_stage p e s)) \<longrightarrow> other_exit p e (fst (remote_stage p e s))"
  by (simp add: remote_stage_def Let_def other_exit_def split: remote_code.splits)

lemma stdout_stage_exit:
  "leaves_loop (fst (stdout_stage p e rd s)) \<longrightarrow> other_exit p e (fst (stdout_stage p e rd s))"
  by (simp add: stdout_stage_def Let_def other_exit_def split: remote_code.splits)

lemma stderr_stage_exit:
  "leaves_loop (fst (stderr_stage e rd s)) \<longrightarrow> other_exit p e (fst (stderr_stage e rd s))"
  by (simp add: stderr_stage_def Let_def other_exit_def split: remote_code.splits)

lemma dispatch_exit:
  "leaves_loop (fst (dispatch p e rd s)) \<longrightarrow> other_exit p e (fst (dispatch p e rd s))"
  unfolding dispatch_def
  by (intro and_then_fst [where P = "\<lambda>x. leaves_loop x \<longrightarrow> other_exit p e x"]
        vchan_event_exit remote_stage_exit stdout_stage_exit stderr_stage_exit)

lemma select_stage_exit:
  "leaves_loop (fst (select_stage p e s)) \<longrightarrow> other_exit p e (fst (select_stage p e s))"
proof (cases "pselect_ret e < 0")
  case True
  then show ?thesis by (simp add: select_stage_def Let_def other_exit_def)
next
  case False
  then show ?thesis using dispatch_exit by (simp add: select_stage_def Let_def)
qed

lemma past_test_exit:
  "leaves_loop (fst (and_then (socket_dup e s) (select_stage p e)))
   \<longrightarrow> other_exit p e (fst (and_then (socket_dup e s) (select_stage p e)))"
  by (intro and_then_fst [where P = "\<lambda>x. leaves_loop x \<longrightarrow> other_exit p e x"]
        socket_dup_exit select_stage_exit)

text \<open>
  C5 as stated fails.  In service-connect mode the first iteration receives
  \<open>EXIT_CODE(7)\<close>: the loop is left by \<^verbatim>\<open>return\<close> although, at the termination test of
  that iteration, stdin and stdout were open and the vchan was open with data pending.
\<close>

theorem loop_left_past_test_counterexample:
  "leaves_loop (fst (loop_body service_params exit7_iter
                       (initial_state service_params 10 11 (- 1) 0 remote_exit7)))
   \<and> \<not> all_done service_params
          (after_reap service_params exit7_iter
             (initial_state service_params 10 11 (- 1) 0 remote_exit7))
   \<and> \<not> vchan_done exit7_iter
          (after_reap service_params exit7_iter
             (initial_state service_params 10 11 (- 1) 0 remote_exit7))"
  by (simp add: after_reap_def session_defs stage_defs)

text \<open>
  C5, as the code has it.  The termination test leaves the loop exactly when (1) all is
  done or (2) the vchan has no pending data, is closed and the staging buffer is empty;
  either condition, taken after the reaping step, makes the iteration leave the loop.  An
  iteration that leaves the loop with neither condition true does so past the test: by
  \<^verbatim>\<open>break\<close> on a \<^verbatim>\<open>pselect\<close> failure other than \<^verbatim>\<open>EINTR\<close>, by \<^verbatim>\<open>return\<close> in
  service-connect mode when the remote has exited, or by a fatal error.  After every
  \<^verbatim>\<open>break\<close> the call returns with all three descriptors closed.
\<close>

theorem loop_exits:
  "(leaves_loop (fst (termination_test p e s)) \<longleftrightarrow> all_done p s \<or> vchan_done e s)
   \<and> (all_done p (after_reap p e s) \<or> vchan_done e (after_reap p e s)
        \<longrightarrow> leaves_loop (fst (loop_body p e s)))
   \<and> (leaves_loop (fst (loop_body p e s))
        \<and> \<not> (all_done p (after_reap p e s) \<or> vchan_done e (after_reap p e s))
        \<longrightarrow> other_exit p e (fst (loop_body p e s)))
   \<and> (\<forall>s'. fst (loop_body p e s) = Break s'
        \<longrightarrow> (\<exists>sf ev. io_loop p (e # es) s = Some (Returned (return_value p sf), sf, ev)
               \<and> stdin_fd sf = - 1 \<and> stdout_fd sf = - 1 \<and> stderr_fd sf = - 1))"
proof -
  let ?s1 = "after_reap p e s"
  have a: "leaves_loop (fst (termination_test p e s)) \<longleftrightarrow> all_done p s \<or> vchan_done e s"
    by (rule termination_test_leaves)
  have b: "all_done p ?s1 \<or> vchan_done e ?s1 \<longrightarrow> leaves_loop (fst (loop_body p e s))"
  proof
    assume "all_done p ?s1 \<or> vchan_done e ?s1"
    then have l: "leaves_loop (fst (termination_test p e ?s1))"
      by (simp add: termination_test_leaves)
    then show "leaves_loop (fst (loop_body p e s))"
      by (cases "termination_test p e ?s1"; cases "fst (termination_test p e ?s1)")
         (simp_all add: loop_body_eq Let_def)
  qed
  have c: "leaves_loop (fst (loop_body p e s)) \<and> \<not> (all_done p ?s1 \<or> vchan_done e ?s1)
           \<longrightarrow> other_exit p e (fst (loop_body p e s))"
  proof
    assume h: "leaves_loop (fst (loop_body p e s)) \<and> \<not> (all_done p ?s1 \<or> vchan_done e ?s1)"
    then have t: "termination_test p e ?s1 = (Next ?s1, [])"
      by (simp add: termination_test_Next)
    have eq: "fst (loop_body p e s) = fst (and_then (socket_dup e ?s1) (select_stage p e))"
      by (simp add: loop_body_eq Let_def t)
    with h past_test_exit [of e ?s1 p] show "other_exit p e (fst (loop_body p e s))"
      by simp
  qed
  have d: "\<forall>s'. fst (loop_body p e s) = Break s'
        \<longrightarrow> (\<exists>sf ev. io_loop p (e # es) s = Some (Returned (return_value p sf), sf, ev)
               \<and> stdin_fd sf = - 1 \<and> stdout_fd sf = - 1 \<and> stderr_fd sf = - 1)"
    using io_loop_Break [of p e s] by (simp add: teardown_fds)
  from a b c d show ?thesis by blast
qed

theorem loop_exits_witness:
  "leaves_loop (fst (loop_body exec_params vchan_gone_iter
                       (initial_state exec_params 5 6 7 0 child_done_vchan_gone)))
   \<and> other_exit service_params exit7_iter
        (fst (loop_body service_params exit7_iter
                (initial_state service_params 10 11 (- 1) 0 remote_exit7)))
   \<and> (\<exists>sf ev. io_loop exec_params [vchan_gone_iter]
                  (initial_state exec_params 5 6 7 0 child_done_vchan_gone)
                = Some (Returned (return_value exec_params sf), sf, ev)
        \<and> stdin_fd sf = - 1 \<and> stdout_fd sf = - 1 \<and> stderr_fd sf = - 1)"
proof -
  note a = loop_exits [of exec_params vchan_gone_iter
                          "initial_state exec_params 5 6 7 0 child_done_vchan_gone" "[]"]
  note b = loop_exits [of service_params exit7_iter
                          "initial_state service_params 10 11 (- 1) 0 remote_exit7" "[]"]
  from a vchan_gone_after_reap(1)
  have 1: "leaves_loop (fst (loop_body exec_params vchan_gone_iter
                       (initial_state exec_params 5 6 7 0 child_done_vchan_gone)))"
    by blast
  have "leaves_loop (fst (loop_body service_params exit7_iter
                (initial_state service_params 10 11 (- 1) 0 remote_exit7)))"
    by (simp add: exit7_body)
  with b vchan_gone_after_reap(2,3)
  have 2: "other_exit service_params exit7_iter
        (fst (loop_body service_params exit7_iter
                (initial_state service_params 10 11 (- 1) 0 remote_exit7)))"
    by blast
  from a vchan_gone_body
  have 3: "\<exists>sf ev. io_loop exec_params [vchan_gone_iter]
                  (initial_state exec_params 5 6 7 0 child_done_vchan_gone)
                = Some (Returned (return_value exec_params sf), sf, ev)
        \<and> stdin_fd sf = - 1 \<and> stdout_fd sf = - 1 \<and> stderr_fd sf = - 1"
    by (metis fst_conv)
  from 1 2 3 show ?thesis by blast
qed

section \<open>The exit code is the last message\<close>

lemma close_unless_socket_no_send: "\<forall>x \<in> set (close_unless_socket pid fd inh how res). \<not> is_send x"
  by (simp add: close_unless_socket_def)

lemma reap_no_send: "\<forall>x \<in> set (snd (reap p e s)). \<not> is_send x"
  by (simp add: reap_def Let_def close_unless_socket_def)

lemma socket_dup_no_send: "\<forall>x \<in> set (snd (socket_dup e s)). \<not> is_send x"
  by (simp add: socket_dup_def Let_def split: option.splits)

lemma vchan_event_no_send: "\<forall>x \<in> set (snd (vchan_event e rd s)). \<not> is_send x"
  by (simp add: vchan_event_def)

lemma remote_stage_no_send: "\<forall>x \<in> set (snd (remote_stage p e s)). \<not> is_send x"
  by (simp add: remote_stage_def Let_def close_unless_socket_def split: remote_code.splits)

lemma stdout_stage_no_send: "\<forall>x \<in> set (snd (stdout_stage p e rd s)). \<not> is_send x"
  by (simp add: stdout_stage_def Let_def split: remote_code.splits)

lemma stderr_stage_no_send: "\<forall>x \<in> set (snd (stderr_stage e rd s)). \<not> is_send x"
  by (simp add: stderr_stage_def Let_def split: remote_code.splits)

lemma dispatch_no_send: "\<forall>x \<in> set (snd (dispatch p e rd s)). \<not> is_send x"
  unfolding dispatch_def
  by (intro and_then_events vchan_event_no_send remote_stage_no_send stdout_stage_no_send
        stderr_stage_no_send)

lemma select_stage_no_send: "\<forall>x \<in> set (snd (select_stage p e s)). \<not> is_send x"
proof (cases "pselect_ret e < 0")
  case True
  then show ?thesis by (simp add: select_stage_def Let_def)
next
  case False
  then show ?thesis
    unfolding select_stage_def Let_def
    by (simp only: if_False) (intro and_then_events dispatch_no_send, simp)
qed

lemma teardown_no_send: "\<forall>x \<in> set (snd (teardown p e s)). \<not> is_send x"
  by (auto simp add: teardown_def Let_def close_unless_socket_def)

lemma teardown_all_done: "all_done p s \<Longrightarrow> snd (teardown p e s) = []"
  by (simp add: teardown_def all_done_def)

lemma termination_test_no_send:
  "\<not> (all_done p s \<and> child_process_status s > - 1) \<Longrightarrow> snd (termination_test p e s) = []"
  by (auto simp add: termination_test_def)

lemma termination_test_sends:
  assumes "all_done p s" and "child_process_status s > - 1"
  shows "(termination_test p e s = (Break s, exit_code_msg (child_process_status s)))
         \<or> (\<exists>err ev. termination_test p e s = (Fatal err s, ev))"
  using assms
  by (simp add: termination_test_def send_exit_code_def exit_code_msg_def Let_def
      sizeof_msg_header_def sizeof_int_def)

lemma past_test_no_send:
  "\<forall>x \<in> set (snd (and_then (socket_dup e s) (select_stage p e))). \<not> is_send x"
  by (intro and_then_events socket_dup_no_send select_stage_no_send)

lemma no_send_filter: "(\<forall>x \<in> set ev. \<not> is_send x) \<Longrightarrow> filter is_send ev = []"
  by (simp add: filter_empty_conv)

lemma body_no_send:
  assumes "\<not> (all_done p (after_reap p e s) \<and> - 1 < child_process_status (after_reap p e s))"
  shows "filter is_send (snd (loop_body p e s)) = []"
proof -
  let ?s1 = "after_reap p e s"
  have r: "filter is_send (snd (reap p e s)) = []"
    by (rule no_send_filter) (rule reap_no_send)
  from assms have t: "snd (termination_test p e ?s1) = []"
    by (rule termination_test_no_send)
  have "\<forall>x \<in> set (snd (and_then (termination_test p e ?s1)
            (\<lambda>s. and_then (socket_dup e s) (select_stage p e)))). \<not> is_send x"
    by (intro and_then_events past_test_no_send) (simp add: t)
  then show ?thesis
    using r by (simp add: loop_body_eq Let_def no_send_filter)
qed

lemma body_sends:
  "filter is_send (snd (loop_body p e s)) = []
   \<or> (fst (loop_body p e s) = Break (after_reap p e s) \<and> all_done p (after_reap p e s)
       \<and> child_process_status (after_reap p e s) > - 1
       \<and> (\<exists>ev0. snd (loop_body p e s) = ev0 @ exit_code_msg (child_process_status (after_reap p e s))
                  \<and> filter is_send ev0 = []))
   \<or> (\<exists>err s'. fst (loop_body p e s) = Fatal err s')"
proof -
  let ?s1 = "after_reap p e s"
  have r: "filter is_send (snd (reap p e s)) = []"
    by (rule no_send_filter) (rule reap_no_send)
  show ?thesis
  proof (cases "all_done p ?s1 \<and> child_process_status ?s1 > - 1")
    case True
    then have "(termination_test p e ?s1 = (Break ?s1, exit_code_msg (child_process_status ?s1)))
         \<or> (\<exists>err ev. termination_test p e ?s1 = (Fatal err ?s1, ev))"
      by (intro termination_test_sends) simp_all
    then show ?thesis
    proof (elim disjE)
      assume t: "termination_test p e ?s1 = (Break ?s1, exit_code_msg (child_process_status ?s1))"
      then have "fst (loop_body p e s) = Break ?s1"
        and "snd (loop_body p e s) = snd (reap p e s) @ exit_code_msg (child_process_status ?s1)"
        by (simp_all add: loop_body_eq Let_def)
      with True r show ?thesis by blast
    next
      assume "\<exists>err ev. termination_test p e ?s1 = (Fatal err ?s1, ev)"
      then obtain err ev where "termination_test p e ?s1 = (Fatal err ?s1, ev)" by blast
      then have "fst (loop_body p e s) = Fatal err ?s1"
        by (simp add: loop_body_eq Let_def)
      then show ?thesis by blast
    qed
  next
    case False
    then have t: "snd (termination_test p e ?s1) = []"
      by (rule termination_test_no_send)
    have "\<forall>x \<in> set (snd (and_then (termination_test p e ?s1)
              (\<lambda>s. and_then (socket_dup e s) (select_stage p e)))). \<not> is_send x"
      by (intro and_then_events past_test_no_send) (simp add: t)
    then have "filter is_send (snd (loop_body p e s)) = []"
      using r by (simp add: loop_body_eq Let_def no_send_filter)
    then show ?thesis by blast
  qed
qed

lemma body_continues_no_send:
  assumes "fst (loop_body p e s) = Next s' \<or> fst (loop_body p e s) = Continue s'
           \<or> fst (loop_body p e s) = Return v s'"
  shows "filter is_send (snd (loop_body p e s)) = []"
  using body_sends [of p e s] assms by auto

lemma exit_code_last_prepend:
  "filter is_send ev1 = [] \<Longrightarrow> exit_code_last sf ev \<Longrightarrow> exit_code_last sf (ev1 @ ev)"
  unfolding exit_code_last_def
  by (elim disjE conjE exE) (simp, metis append.assoc filter_append append_Nil)

lemma io_loop_exit_code_last:
  "io_loop p es s = Some (Returned v, sf, ev) \<Longrightarrow> exit_code_last sf ev"
proof (induction es arbitrary: s ev)
  case Nil
  then show ?case by simp
next
  case (Cons e es)
  obtain x evb where body: "loop_body p e s = (x, evb)" by (cases "loop_body p e s")
  show ?case
  proof (cases x)
    case (Next s')
    with body Cons.prems obtain ev' where r: "io_loop p es s' = Some (Returned v, sf, ev')"
      and ev: "ev = evb @ ev'"
      by (auto simp: prepend_def)
    have "filter is_send evb = []"
      using body_continues_no_send [of p e s s'] body Next by simp
    with Cons.IH [OF r] ev show ?thesis by (simp add: exit_code_last_prepend)
  next
    case (Continue s')
    with body Cons.prems obtain ev' where r: "io_loop p es s' = Some (Returned v, sf, ev')"
      and ev: "ev = evb @ ev'"
      by (auto simp: prepend_def)
    have "filter is_send evb = []"
      using body_continues_no_send [of p e s s'] body Continue by simp
    with Cons.IH [OF r] ev show ?thesis by (simp add: exit_code_last_prepend)
  next
    case (Break s')
    with body Cons.prems have sf: "sf = fst (teardown p e s')"
      and ev: "ev = evb @ snd (teardown p e s')"
      by (auto split: prod.splits)
    have td: "filter is_send (snd (teardown p e s')) = []"
      by (rule no_send_filter) (rule teardown_no_send)
    from body_sends [of p e s] body Break
    show ?thesis
    proof (elim disjE)
      assume "filter is_send (snd (loop_body p e s)) = []"
      with body td ev show ?thesis by (simp add: exit_code_last_def)
    next
      assume h: "fst (loop_body p e s) = Break (after_reap p e s) \<and> all_done p (after_reap p e s)
       \<and> child_process_status (after_reap p e s) > - 1
       \<and> (\<exists>ev0. snd (loop_body p e s) = ev0 @ exit_code_msg (child_process_status (after_reap p e s))
                  \<and> filter is_send ev0 = [])"
      with body Break have s': "s' = after_reap p e s" by simp
      from h s' have "snd (teardown p e s') = []" by (simp add: teardown_all_done)
      with h s' sf ev body show ?thesis
        by (auto simp add: exit_code_last_def teardown_fds)
    next
      assume "\<exists>err s'. fst (loop_body p e s) = Fatal err s'"
      with body Break show ?thesis by simp
    qed
  next
    case (Return r s')
    with body Cons.prems have ev: "ev = evb" by simp
    have "filter is_send evb = []"
      using body_continues_no_send [of p e s s' r] body Return by simp
    with ev show ?thesis by (simp add: exit_code_last_def)
  next
    case (Fatal err s')
    with body Cons.prems show ?thesis by simp
  next
    case Stuck
    with body Cons.prems show ?thesis by simp
  qed
qed

lemma initial_events_no_send: "filter is_send (initial_events fin fout ferr le) = []"
  by (simp add: initial_events_def)

lemma loop_body_sends_iff:
  "filter is_send (snd (loop_body p e s)) \<noteq> []
   \<longleftrightarrow> all_done p (after_reap p e s) \<and> - 1 < child_process_status (after_reap p e s)"
proof -
  let ?s1 = "after_reap p e s"
  show ?thesis
  proof (cases "all_done p ?s1 \<and> - 1 < child_process_status ?s1")
    case True
    then have "filter is_send (snd (termination_test p e ?s1)) \<noteq> []"
      by (simp add: termination_test_def send_exit_code_def Let_def)
    moreover have "snd (loop_body p e s) = snd (reap p e s) @ snd (termination_test p e ?s1)"
    proof -
      from True have "(termination_test p e ?s1
                         = (Break ?s1, exit_code_msg (child_process_status ?s1)))
         \<or> (\<exists>err ev. termination_test p e ?s1 = (Fatal err ?s1, ev))"
        by (intro termination_test_sends) simp_all
      then show ?thesis
        by (auto simp add: loop_body_eq Let_def)
    qed
    ultimately show ?thesis using True by simp
  next
    case False
    with body_no_send [of p e s] show ?thesis by simp
  qed
qed

text \<open>
  C3 as stated fails.  The child is reaped with status 0 while its stdout is still open,
  and the same iteration finds the vchan disconnected: the call returns 0, a local exit
  code exists at the end of the session, and nothing was sent.
\<close>

theorem exit_code_missing_counterexample:
  "\<exists>sf ev. process_child_io exec_params 5 6 7 0 child_done_vchan_gone = Some (Returned 0, sf, ev)
      \<and> child_process_status sf = 0 \<and> filter is_send ev = []"
  by (simp add: child_done_vchan_gone_run)

text \<open>
  C3, as the code has it.  In a session of \<^verbatim>\<open>process_child_io\<close> that returns, either
  nothing is sent, or a local exit code is recorded and the calls made end with the two
  sends of one \<open>EXIT_CODE\<close> message carrying it, with no send before them: at most one
  \<open>EXIT_CODE\<close> is sent and nothing follows it.  An iteration sends exactly when, after its
  reaping step, all is done and a local exit code is recorded.
\<close>

theorem exit_code_sent_last:
  assumes "process_child_io p fin fout ferr n le = Some (Returned v, sf, ev)"
  shows "(filter is_send ev = []
          \<or> (- 1 < child_process_status sf
              \<and> (\<exists>ev0. ev = ev0 @ exit_code_msg (child_process_status sf)
                        \<and> filter is_send ev0 = [])))
       \<and> (\<forall>e s. filter is_send (snd (loop_body p e s)) \<noteq> []
              \<longleftrightarrow> all_done p (after_reap p e s)
                   \<and> - 1 < child_process_status (after_reap p e s))"
proof -
  from assms have "\<not> (fout = fin \<and> init_dupfd_ret le < 0)"
    by (auto simp add: process_child_io_def)
  from process_child_io_run [OF assms this]
  obtain ev' where run: "io_loop p (iters le) (initial_state p fin fout ferr n le)
                          = Some (Returned v, sf, ev')"
    and ev: "ev = initial_events fin fout ferr le @ ev'"
    by blast
  from io_loop_exit_code_last [OF run] have "exit_code_last sf ev'" .
  then have "exit_code_last sf ev"
    unfolding ev by (rule exit_code_last_prepend [OF initial_events_no_send])
  then show ?thesis
    using loop_body_sends_iff by (simp add: exit_code_last_def)
qed

theorem exit_code_sent_last_witness:
  "\<exists>sf ev ev0. process_child_io exec_params 5 6 7 0 sigterm_session = Some (Returned 143, sf, ev)
      \<and> ev = ev0 @ exit_code_msg 143 \<and> filter is_send ev0 = []"
  using exit_code_sent_last [OF sigterm_session_run]
  by (simp add: sigterm_session_run)

section \<open>Reads are gated on ring space\<close>

lemma build_rdset_gated:
  "fd \<in> set (build_rdset e s) \<Longrightarrow> sizeof_msg_header < buffer_space e \<or> fd = vchan_fd e"
  by (auto simp add: build_rdset_def split: if_splits)

lemma reap_gated: "\<forall>x \<in> set (snd (reap p e s)). gated e x"
  by (simp add: reap_def Let_def close_unless_socket_def)

lemma termination_test_gated: "\<forall>x \<in> set (snd (termination_test p e s)). gated e x"
  by (simp add: termination_test_def send_exit_code_def Let_def)

lemma socket_dup_gated: "\<forall>x \<in> set (snd (socket_dup e s)). gated e x"
  by (simp add: socket_dup_def Let_def split: option.splits)

lemma vchan_event_gated: "\<forall>x \<in> set (snd (vchan_event e rd s)). gated e x"
  by (simp add: vchan_event_def)

lemma remote_stage_gated: "\<forall>x \<in> set (snd (remote_stage p e s)). gated e x"
  by (simp add: remote_stage_def Let_def close_unless_socket_def split: remote_code.splits)

lemma stdout_stage_gated:
  assumes "\<forall>fd \<in> set rd. sizeof_msg_header < buffer_space e \<or> fd = vchan_fd e"
  shows "\<forall>x \<in> set (snd (stdout_stage p e rd s)). gated e x"
  using assms by (auto simp add: stdout_stage_def Let_def split: remote_code.splits)

lemma stderr_stage_gated:
  assumes "\<forall>fd \<in> set rd. sizeof_msg_header < buffer_space e \<or> fd = vchan_fd e"
  shows "\<forall>x \<in> set (snd (stderr_stage e rd s)). gated e x"
  using assms by (auto simp add: stderr_stage_def Let_def split: remote_code.splits)

lemma dispatch_gated:
  assumes "\<forall>fd \<in> set rd. sizeof_msg_header < buffer_space e \<or> fd = vchan_fd e"
  shows "\<forall>x \<in> set (snd (dispatch p e rd s)). gated e x"
  unfolding dispatch_def
  by (intro and_then_events vchan_event_gated remote_stage_gated
        stdout_stage_gated [OF assms] stderr_stage_gated [OF assms])

lemma select_stage_gated: "\<forall>x \<in> set (snd (select_stage p e s)). gated e x"
proof -
  have rdset: "\<forall>fd \<in> set (build_rdset e s). sizeof_msg_header < buffer_space e \<or> fd = vchan_fd e"
    using build_rdset_gated by blast
  then have ps: "gated e (Pselect n (build_rdset e s) wr t)" for n wr t
    by (simp add: list_all_iff)
  show ?thesis
  proof (cases "pselect_ret e < 0")
    case True
    then show ?thesis using ps by (simp add: select_stage_def Let_def)
  next
    case False
    let ?rd = "if pselect_ret e = 0 then [] else filter (\<lambda>fd. fd \<in> set (rd_ready e)) (build_rdset e s)"
    have "\<forall>fd \<in> set ?rd. sizeof_msg_header < buffer_space e \<or> fd = vchan_fd e"
      using rdset by auto
    from dispatch_gated [OF this] False ps show ?thesis
      by (simp add: select_stage_def Let_def)
  qed
qed

lemma loop_body_gated: "\<forall>x \<in> set (snd (loop_body p e s)). gated e x"
  unfolding loop_body_def
  by (intro and_then_events reap_gated termination_test_gated socket_dup_gated select_stage_gated)

text \<open>
  C8 as stated fails in its second half.  After the first iteration of the session
  below every descriptor is closed; the second iteration reaps the child and sends the
  \<open>EXIT_CODE\<close> message although the ring has no free space: \<^verbatim>\<open>send_exit_code\<close> is not
  gated.
\<close>

theorem send_into_full_ring_counterexample:
  "fst (loop_body exec_params eof_iter (initial_state exec_params 5 6 7 0 sigterm_session))
     = Next drained
   \<and> buffer_space full_ring_reap_iter = 0
   \<and> snd (loop_body exec_params full_ring_reap_iter drained)
     = [Waitpid 4243, Send (Hdr \<lparr>type = MSG_DATA_EXIT_CODE, len = 4\<rparr>) 8, Send (Status 143) 4]"
  by (simp add: eof_body full_ring_body) (simp add: session_defs)

text \<open>
  C8, as the code has it.  When the free ring space does not exceed the header size, the
  read set holds the vchan's descriptor only.  In every iteration, the read set given to
  \<^verbatim>\<open>pselect\<close> holds, besides the vchan's descriptor, only descriptors admitted with more
  than a header of free space, and \<^verbatim>\<open>handle_input\<close>, the pump that frames and sends
  what the child wrote, is called only on such a descriptor.
\<close>

theorem reads_gated_on_ring_space:
  "(buffer_space e \<le> sizeof_msg_header \<longrightarrow> build_rdset e s = [vchan_fd e])
   \<and> (\<forall>x \<in> set (snd (loop_body p e s)). gated e x)"
  using loop_body_gated by (simp add: build_rdset_def)

theorem reads_gated_on_ring_space_witness:
  "build_rdset small_ring_iter (initial_state exec_params 5 6 7 0 sigterm_session) = [4]
   \<and> gated small_ring_iter (Pselect 5 [4] [] Zero_timeout)
   \<and> gated eof_iter (Handle_input 6 MSG_DATA_STDOUT True)"
proof -
  note a = reads_gated_on_ring_space [of small_ring_iter
             "initial_state exec_params 5 6 7 0 sigterm_session" exec_params]
  note b = reads_gated_on_ring_space [of eof_iter
             "initial_state exec_params 5 6 7 0 sigterm_session" exec_params]
  have sp: "buffer_space small_ring_iter \<le> sizeof_msg_header" "vchan_fd small_ring_iter = 4"
    by (simp_all add: session_defs sizeof_msg_header_def)
  from a sp have 1: "build_rdset small_ring_iter
                       (initial_state exec_params 5 6 7 0 sigterm_session) = [4]"
    by simp
  from a have 2: "gated small_ring_iter (Pselect 5 [4] [] Zero_timeout)"
    by (simp add: small_ring_body)
  from b have 3: "gated eof_iter (Handle_input 6 MSG_DATA_STDOUT True)"
    by (simp add: eof_body)
  from 1 2 3 show ?thesis by blast
qed

section \<open>The exit code of a reaped child\<close>

lemma wtermsig_mod: "WTERMSIG s = s mod 128"
proof -
  have "s AND mask 7 = take_bit 7 s" by (simp add: take_bit_eq_mask)
  then show ?thesis by (simp add: WTERMSIG_def take_bit_eq_mod mask_eq_exp_minus_1)
qed

lemma wexitstatus_div: "WEXITSTATUS s = (s div 256) mod 256"
proof -
  have "drop_bit 8 (s AND 0xff00) = drop_bit 8 s AND drop_bit 8 (0xff00 :: int)" by simp
  also have "drop_bit 8 (0xff00 :: int) = mask 8" by (simp add: mask_eq_exp_minus_1 drop_bit_eq_div)
  also have "drop_bit 8 s AND mask 8 = take_bit 8 (drop_bit 8 s)" by (simp add: take_bit_eq_mask)
  finally show ?thesis by (simp add: WEXITSTATUS_def take_bit_eq_mod drop_bit_eq_div)
qed

lemma signed_char_shift:
  assumes "1 \<le> k" "k \<le> 128"
  shows "(drop_bit 1 (sint (word_of_int k :: 8 word)) > 0) \<longleftrightarrow> 2 \<le> k \<and> k \<le> 127"
proof (cases "k = 128")
  case True
  then show ?thesis by simp
next
  case False
  with assms have k: "k < 128" by simp
  have "sint (word_of_int k :: 8 word) = k"
    using assms k by (simp add: sint_sbintrunc' signed_take_bit_int_eq_self_iff)
  moreover have "(0 < k div 2) = (2 \<le> k)" by presburger
  ultimately show ?thesis using k by (simp add: drop_bit_eq_div)
qed

lemma wifsignaled_iff: "WIFSIGNALED s \<longleftrightarrow> 1 \<le> s mod 128 \<and> s mod 128 \<le> 126"
proof -
  have m: "s AND 0x7f = s mod 128" using wtermsig_mod [of s] by (simp add: WTERMSIG_def)
  have "0 \<le> s mod 128" "s mod 128 < 128" by simp_all
  then have "1 \<le> s mod 128 + 1" "s mod 128 + 1 \<le> 128" by linarith+
  from signed_char_shift [OF this] show ?thesis
    unfolding WIFSIGNALED_def m by linarith
qed

lemma wait_status_arith:
  "wait_status_to_exit_code s =
     (if 1 \<le> s mod 128 \<and> s mod 128 \<le> 126 then 128 + s mod 128 else (s div 256) mod 256)"
  by (simp add: wait_status_to_exit_code_def wifsignaled_iff wtermsig_mod wexitstatus_div)

lemma termination_test_status_sent:
  assumes "Send (Status v) n \<in> set (snd (termination_test p e s))"
  shows "v = child_process_status s \<and> - 1 < v"
  using assms
  by (auto simp add: termination_test_def send_exit_code_def Let_def split: if_splits)

lemma status_frames:
  fixes c :: int
  defines "Q \<equiv> \<lambda>t. child_process_status t = c"
  shows "Q s \<Longrightarrow> frames Q (termination_test p e s)"
    and "Q s \<Longrightarrow> frames Q (socket_dup e s)"
    and "Q s \<Longrightarrow> frames Q (vchan_event e rd s)"
    and "Q s \<Longrightarrow> frames Q (remote_stage p e s)"
    and "Q s \<Longrightarrow> frames Q (stdout_stage p e rd s)"
    and "Q s \<Longrightarrow> frames Q (stderr_stage e rd s)"
  unfolding Q_def frames_def
  by (auto simp add: termination_test_def send_exit_code_def socket_dup_def deliver_sigusr1_def
      vchan_event_def remote_stage_def stdout_stage_def stderr_stage_def Let_def
      split: option.splits if_splits remote_code.splits)

lemma dispatch_status_frames:
  "child_process_status s = c \<Longrightarrow> frames (\<lambda>t. child_process_status t = c) (dispatch p e rd s)"
  unfolding dispatch_def
  by (intro frames_and_then status_frames)

lemma select_stage_status_frames:
  assumes "child_process_status s = c"
  shows "frames (\<lambda>t. child_process_status t = c) (select_stage p e s)"
proof (cases "pselect_ret e < 0")
  case True
  with assms show ?thesis by (simp add: select_stage_def Let_def frames_def)
next
  case False
  have "frames (\<lambda>t. child_process_status t = c)
          (Next (if sigchld e then s\<lparr>child_exited := True\<rparr> else s), ev)" for ev
    using assms by (simp add: frames_def)
  then show ?thesis
    using False unfolding select_stage_def Let_def
    by (simp only: if_False) (intro frames_and_then dispatch_status_frames)
qed

lemma loop_body_status:
  assumes "step_state (fst (loop_body p e s)) = Some s'"
  shows "child_process_status s' = child_process_status (after_reap p e s)"
proof -
  let ?c = "child_process_status (after_reap p e s)"
  have "frames (\<lambda>t. child_process_status t = ?c) (reap p e s)"
    by (subst reap_eq) (simp add: frames_def)
  then have "frames (\<lambda>t. child_process_status t = ?c) (loop_body p e s)"
    unfolding loop_body_def
    by (intro frames_and_then status_frames select_stage_status_frames)
  with assms show ?thesis by (simp add: frames_def)
qed

lemma body_status_sent:
  assumes "Send (Status v) k \<in> set (snd (loop_body p e s))"
  shows "v = child_process_status (after_reap p e s) \<and> - 1 < v
         \<and> (fst (loop_body p e s) = Break (after_reap p e s)
            \<or> (\<exists>err. fst (loop_body p e s) = Fatal err (after_reap p e s)))"
proof -
  let ?s1 = "after_reap p e s"
  have ad: "all_done p ?s1 \<and> - 1 < child_process_status ?s1"
  proof (rule ccontr)
    assume "\<not> ?thesis"
    from body_no_send [OF this] have "\<forall>x \<in> set (snd (loop_body p e s)). \<not> is_send x"
      by (simp add: filter_empty_conv)
    with assms show False by auto
  qed
  then have shape: "(termination_test p e ?s1 = (Break ?s1, exit_code_msg (child_process_status ?s1)))
         \<or> (\<exists>err ev. termination_test p e ?s1 = (Fatal err ?s1, ev))"
    by (intro termination_test_sends) simp_all
  then have ev: "snd (loop_body p e s) = snd (reap p e s) @ snd (termination_test p e ?s1)"
    and st: "fst (loop_body p e s) = Break ?s1 \<or> (\<exists>err. fst (loop_body p e s) = Fatal err ?s1)"
    by (auto simp add: loop_body_eq Let_def)
  from assms ev reap_no_send [of p e s]
  have "Send (Status v) k \<in> set (snd (termination_test p e ?s1))" by auto
  from termination_test_status_sent [OF this] st show ?thesis by simp
qed

lemma io_loop_status:
  "io_loop p es s = Some (out, sf, ev) \<Longrightarrow>
     (child_process_status sf = child_process_status s
      \<or> (\<exists>e \<in> set es. 0 < waitpid_ret e
            \<and> child_process_status sf = wait_status_to_exit_code (waitpid_status e)))
     \<and> (\<forall>v k. Send (Status v) k \<in> set ev \<longrightarrow> v = child_process_status sf \<and> - 1 < v)"
proof (induction es arbitrary: s ev)
  case Nil
  then show ?case by simp
next
  case (Cons e es)
  obtain x evb where body: "loop_body p e s = (x, evb)" by (cases "loop_body p e s")
  have ar: "child_process_status (after_reap p e s) = child_process_status s
            \<or> (0 < waitpid_ret e \<and> child_process_status (after_reap p e s)
                  = wait_status_to_exit_code (waitpid_status e))"
    by (simp add: after_reap_status)
  have st: "step_state x = Some s' \<Longrightarrow>
              child_process_status s' = child_process_status (after_reap p e s)" for s'
    using loop_body_status [of p e s s'] body by simp
  have nosend: "\<forall>v k. Send (Status v) k \<notin> set evb"
    if "x = Next s' \<or> x = Continue s' \<or> x = Return r s'" for s' r
    using body_status_sent [of _ _ p e s] body that by auto
  show ?case
  proof (cases x)
    case (Next s')
    with body Cons.prems obtain ev' where r: "io_loop p es s' = Some (out, sf, ev')"
      and ev: "ev = evb @ ev'"
      by (auto simp: prepend_def)
    from Cons.IH [OF r] st [of s'] Next ar nosend [of s'] ev show ?thesis by auto
  next
    case (Continue s')
    with body Cons.prems obtain ev' where r: "io_loop p es s' = Some (out, sf, ev')"
      and ev: "ev = evb @ ev'"
      by (auto simp: prepend_def)
    from Cons.IH [OF r] st [of s'] Continue ar nosend [of s'] ev show ?thesis by auto
  next
    case (Break s')
    with body Cons.prems have sf: "sf = fst (teardown p e s')"
      and ev: "ev = evb @ snd (teardown p e s')"
      by (auto split: prod.splits)
    have "\<forall>v k. Send (Status v) k \<in> set ev \<longrightarrow> v = child_process_status sf \<and> - 1 < v"
    proof (intro allI impI)
      fix v k assume "Send (Status v) k \<in> set ev"
      with ev teardown_no_send [of p e s'] have "Send (Status v) k \<in> set evb" by auto
      with body_status_sent [of v k p e s] body st [of s'] Break sf
      show "v = child_process_status sf \<and> - 1 < v" by (simp add: teardown_fds)
    qed
    with st [of s'] Break sf ar show ?thesis by (auto simp add: teardown_fds)
  next
    case (Return r s')
    with body Cons.prems have "sf = s'" "ev = evb" by simp_all
    with st [of s'] Return ar nosend [of s' r] show ?thesis by auto
  next
    case (Fatal err s')
    with body Cons.prems have sf: "sf = s'" and ev: "ev = evb" by simp_all
    have "\<forall>v k. Send (Status v) k \<in> set ev \<longrightarrow> v = child_process_status sf \<and> - 1 < v"
      using body_status_sent [of _ _ p e s] body st [of s'] Fatal sf ev by auto
    with st [of s'] Fatal sf ar show ?thesis by auto
  next
    case Stuck
    with body Cons.prems show ?thesis by simp
  qed
qed

text \<open>
  C9.  When an iteration reaps the child, the status recorded is \<open>128 + WTERMSIG\<close> if the
  wait status says the child was killed by a signal, and \<open>WEXITSTATUS\<close> otherwise.  In a
  session with a local child, every status sent in an \<open>EXIT_CODE\<close> message is that
  translation of a wait status that \<^verbatim>\<open>waitpid\<close> returned in one of the iterations.
\<close>

theorem exit_code_from_wait_status:
  "(child_exited s \<and> 0 < child_process_pid p \<and> 0 < waitpid_ret e
      \<longrightarrow> child_process_status (after_reap p e s)
           = (if WIFSIGNALED (waitpid_status e) then 128 + WTERMSIG (waitpid_status e)
              else WEXITSTATUS (waitpid_status e)))
   \<and> (process_child_io p fin fout ferr n le = Some (out, sf, ev) \<and> 0 < child_process_pid p
        \<and> Send (Status v) k \<in> set ev
      \<longrightarrow> (\<exists>e \<in> set (iters le). 0 < waitpid_ret e
            \<and> v = (if WIFSIGNALED (waitpid_status e) then 128 + WTERMSIG (waitpid_status e)
                   else WEXITSTATUS (waitpid_status e))))"
proof -
  have a: "child_exited s \<and> 0 < child_process_pid p \<and> 0 < waitpid_ret e
      \<longrightarrow> child_process_status (after_reap p e s)
           = (if WIFSIGNALED (waitpid_status e) then 128 + WTERMSIG (waitpid_status e)
              else WEXITSTATUS (waitpid_status e))"
    by (simp add: after_reap_status wait_status_to_exit_code_def)
  have b: "process_child_io p fin fout ferr n le = Some (out, sf, ev) \<and> 0 < child_process_pid p
        \<and> Send (Status v) k \<in> set ev
      \<longrightarrow> (\<exists>e \<in> set (iters le). 0 < waitpid_ret e
            \<and> v = (if WIFSIGNALED (waitpid_status e) then 128 + WTERMSIG (waitpid_status e)
                   else WEXITSTATUS (waitpid_status e)))"
  proof
    assume h: "process_child_io p fin fout ferr n le = Some (out, sf, ev) \<and> 0 < child_process_pid p
        \<and> Send (Status v) k \<in> set ev"
    then have na: "\<not> (fout = fin \<and> init_dupfd_ret le < 0)"
      by (auto simp add: process_child_io_def)
    from h process_child_io_run [OF _ na]
    obtain ev' where run: "io_loop p (iters le) (initial_state p fin fout ferr n le)
                            = Some (out, sf, ev')"
      and ev: "ev = initial_events fin fout ferr le @ ev'"
      by blast
    from h ev have "Send (Status v) k \<in> set ev'"
      by (auto simp add: initial_events_def split: if_splits)
    with io_loop_status [OF run] have v: "v = child_process_status sf" "- 1 < v"
      and org: "child_process_status sf = child_process_status (initial_state p fin fout ferr n le)
      \<or> (\<exists>e \<in> set (iters le). 0 < waitpid_ret e
            \<and> child_process_status sf = wait_status_to_exit_code (waitpid_status e))"
      by blast+
    from h have "child_process_status (initial_state p fin fout ferr n le) = - 1"
      by (simp add: initial_state_def)
    with v org show "\<exists>e \<in> set (iters le). 0 < waitpid_ret e
            \<and> v = (if WIFSIGNALED (waitpid_status e) then 128 + WTERMSIG (waitpid_status e)
                   else WEXITSTATUS (waitpid_status e))"
      by (auto simp add: wait_status_to_exit_code_def)
  qed
  from a b show ?thesis by blast
qed

theorem exit_code_from_wait_status_witness:
  "child_process_status (after_reap exec_params full_ring_reap_iter drained) = 143
   \<and> (\<exists>e \<in> set (iters sigterm_session). 0 < waitpid_ret e
         \<and> WIFSIGNALED (waitpid_status e) \<and> 143 = 128 + WTERMSIG (waitpid_status e))"
proof -
  note a = exit_code_from_wait_status [where s = drained and p = exec_params
             and e = full_ring_reap_iter and fin = 5 and fout = 6 and ferr = 7 and n = 0
             and le = sigterm_session and out = "Returned 143" and v = 143 and k = 4]
  have "child_process_status (after_reap exec_params full_ring_reap_iter drained)
        = (if WIFSIGNALED (waitpid_status full_ring_reap_iter)
           then 128 + WTERMSIG (waitpid_status full_ring_reap_iter)
           else WEXITSTATUS (waitpid_status full_ring_reap_iter))"
    by (rule a [THEN conjunct1, THEN mp]) (simp add: sigterm_facts)
  then have 1: "child_process_status (after_reap exec_params full_ring_reap_iter drained) = 143"
    by (simp add: sigterm_facts sigterm_macros)
  have "\<exists>e \<in> set (iters sigterm_session). 0 < waitpid_ret e
            \<and> 143 = (if WIFSIGNALED (waitpid_status e) then 128 + WTERMSIG (waitpid_status e)
                   else WEXITSTATUS (waitpid_status e))"
    by (rule a [THEN conjunct2, THEN mp])
       (intro conjI, rule sigterm_session_run, rule sigterm_facts, simp)
  then have 2: "\<exists>e \<in> set (iters sigterm_session). 0 < waitpid_ret e
         \<and> WIFSIGNALED (waitpid_status e) \<and> 143 = 128 + WTERMSIG (waitpid_status e)"
    by (simp add: sigterm_facts sigterm_macros)
  from 1 2 show ?thesis by blast
qed

section \<open>Descriptors are closed once\<close>




lemma plus_fd_neg [simp]: "plus_fd (- 1) A = A"
  by (simp add: plus_fd_def)








lemma deliver_sigusr1_fds [simp]:
  "stdin_fd (deliver_sigusr1 e s) = stdin_fd s"
  "stdout_fd (deliver_sigusr1 e s) = stdout_fd s"
  "stderr_fd (deliver_sigusr1 e s) = stderr_fd s"
  by (simp_all add: deliver_sigusr1_def)


lemma owned_flag [simp]: "owned (s\<lparr>stdio_socket_requested := n\<rparr>) = owned s"
  by (simp add: owned_def)

lemma owned_deliver [simp]: "owned (deliver_sigusr1 e s) = owned s"
  by (simp add: owned_def)






lemma owned_other [simp]:
  "owned (s\<lparr>stdin_buf_len := n\<rparr>) = owned s"
  "owned (s\<lparr>remote_process_status := r\<rparr>) = owned s"
  "owned (s\<lparr>child_process_status := c\<rparr>) = owned s"
  "owned (s\<lparr>child_exited := b\<rparr>) = owned s"
  by (simp_all add: owned_def)



















section \<open>Execute and detach\<close>

text \<open>
  C6 as stated fails.  A command line without a colon is not executed: nothing is forked,
  the exit code sent is \<open>-1\<close>, and the call returns 0.
\<close>

theorem no_colon_counterexample:
  "handle_new_process_common protocol_v3 MSG_JUST_EXEC 0 512
     (Some (''nocolon'' @ [CHR 0x00])) (- 1) (- 1) (- 1) 0 (session_with_peer 3) =
   Some (Returned 0,
     [Client_init 0 512,
      Send (Hdr \<lparr>type = MSG_HELLO, len = 4\<rparr>) 8, Send (Info \<lparr>version = 3\<rparr>) 4,
      Recv 8, Recv 4,
      Setenv_agent_pid 4242,
      Send (Hdr \<lparr>type = MSG_DATA_EXIT_CODE, len = 4\<rparr>) 8, Send (Status (- 1)) 4,
      Libvchan_close])"
  by (simp add: handle_new_process_common_def serve_def protocol_v3_def session_with_peer_def
      compatible_handshake snprintf_d_4242 prepare_child_env_def handle_just_exec_def
      c_str_def finish_def send_exit_code_def Let_def sizeof_msg_header_def sizeof_int_def)

text \<open>
  C6, as the code has it.  Take a \<^verbatim>\<open>MSG_JUST_EXEC\<close> request whose vchan connects, whose
  handshake ends with a compatible version, whose environment is prepared and whose two
  exit-code sends do not fail.  If the command line has a colon and \<^verbatim>\<open>fork\<close> succeeds, the
  command after the colon is forked with its standard descriptors on \<^verbatim>\<open>/dev/null\<close>, exit
  code 0 is sent, the vchan is closed and the call returns 0.  If the command line has no
  colon, or \<^verbatim>\<open>fork\<close> fails, nothing is executed, exit code \<open>-1\<close> is sent, and the call
  still returns 0.
\<close>

theorem just_exec_session:
  assumes "vchan_init_ok env" and "0 < length buf" and "length buf \<le> MAX_QREXEC_CMD_LEN cfg"
    and "QREXEC_DATA_MIN_VERSION \<le> fst (handle_handshake (QREXEC_PROTOCOL_VERSION cfg) (hs env))"
    and "snprintf_d (getpid_ret env) < 10" and "setenv_ret env = 0"
    and "0 \<le> je_send_hdr_ret env" and "0 \<le> je_send_status_ret env"
    and "str = c_str (buf[length buf - 1 := CHR 0x00])"
    and "before = Client_init connect_domain connect_port
                  # snd (handle_handshake (QREXEC_PROTOCOL_VERSION cfg) (hs env))
                  @ [Setenv_agent_pid (getpid_ret env)]"
  shows "(CHR '':'' \<in> set str \<and> 0 < fork_ret env \<longrightarrow>
            handle_new_process_common cfg MSG_JUST_EXEC connect_domain connect_port (Some buf)
              fin fout ferr buffer_size env =
            Some (Returned 0,
                  before
                  @ [Fork [Open_rdwr ''/dev/null'', Fix_fds_to_opened,
                           Do_exec (tl (dropWhile (\<lambda>c. c \<noteq> CHR '':'') str))
                                   (takeWhile (\<lambda>c. c \<noteq> CHR '':'') str)]]
                  @ exit_code_msg 0 @ [Libvchan_close]))
       \<and> (CHR '':'' \<notin> set str \<longrightarrow>
            handle_new_process_common cfg MSG_JUST_EXEC connect_domain connect_port (Some buf)
              fin fout ferr buffer_size env =
            Some (Returned 0, before @ exit_code_msg (- 1) @ [Libvchan_close]))
       \<and> (CHR '':'' \<in> set str \<and> fork_ret env = - 1 \<longrightarrow>
            handle_new_process_common cfg MSG_JUST_EXEC connect_domain connect_port (Some buf)
              fin fout ferr buffer_size env =
            Some (Returned 0, before @ [Fork_failed] @ exit_code_msg (- 1) @ [Libvchan_close]))"
proof -
  obtain v evh where hh: "handle_handshake (QREXEC_PROTOCOL_VERSION cfg) (hs env) = (v, evh)"
    by (cases "handle_handshake (QREXEC_PROTOCOL_VERSION cfg) (hs env)")
  have pe: "prepare_child_env (getpid_ret env) (setenv_ret env)
            = (None, [Setenv_agent_pid (getpid_ret env)])"
    using assms(5,6) by (simp add: prepare_child_env_def Let_def snprintf_d_def)
  have se: "send_exit_code st (je_send_hdr_ret env) (je_send_status_ret env)
            = (None, exit_code_msg st)" for st
    using assms(7,8)
    by (simp add: send_exit_code_def exit_code_msg_def Let_def sizeof_msg_header_def
        sizeof_int_def)
  have run: "handle_new_process_common cfg MSG_JUST_EXEC connect_domain connect_port (Some buf)
              fin fout ferr buffer_size env =
             (case handle_just_exec (buf[length buf - 1 := CHR 0x00]) (fork_ret env) of
                (Inl err, ev_je) \<Rightarrow> Some (Failed err, before @ ev_je)
              | (Inr status, ev_je) \<Rightarrow>
                  Some (Returned 0, before @ ev_je @ exit_code_msg status @ [Libvchan_close]))"
    using assms(1,2,3,10)
    by (simp add: handle_new_process_common_def serve_def hh pe se finish_def Let_def
        split: prod.splits sum.splits)
  show ?thesis
    unfolding run using assms(9)
    by (simp add: handle_just_exec_def just_exec_child_def Let_def)
qed

theorem just_exec_session_witness:
  "handle_new_process_common protocol_v3 MSG_JUST_EXEC 0 512
     (Some (''user:true'' @ [CHR 0x00])) (- 1) (- 1) (- 1) 0 (session_with_peer 3) =
   Some (Returned 0,
     [Client_init 0 512,
      Send (Hdr \<lparr>type = MSG_HELLO, len = 4\<rparr>) 8, Send (Info \<lparr>version = 3\<rparr>) 4,
      Recv 8, Recv 4,
      Setenv_agent_pid 4242,
      Fork [Open_rdwr ''/dev/null'', Fix_fds_to_opened, Do_exec ''true'' ''user''],
      Send (Hdr \<lparr>type = MSG_DATA_EXIT_CODE, len = 4\<rparr>) 8, Send (Status 0) 4,
      Libvchan_close])"
  using just_exec_session [where env = "session_with_peer 3" and cfg = protocol_v3
          and buf = "''user:true'' @ [CHR 0x00]" and connect_domain = 0 and connect_port = 512
          and fin = "- 1" and fout = "- 1" and ferr = "- 1" and buffer_size = 0,
          OF _ _ _ _ _ _ _ _ refl refl]
  by (simp add: session_facts compatible_handshake snprintf_d_4242 c_str_def
      QREXEC_DATA_MIN_VERSION_def QREXEC_PROTOCOL_V2_def exit_code_msg_def)

end
